theory Spec2Isabelle
  imports Main "HOL-Library.Word"
begin

unbundle bit_operations_syntax

section \<open>Machine types and CPU masks\<close>

text \<open>
  The embedding follows \<^verbatim>\<open>arch/arm64/kernel/topology.c\<close>. A C \<^verbatim>\<open>int\<close> is a
  32-bit word read through \<open>sint\<close>, a \<^verbatim>\<open>u32\<close> a 32-bit word, an
  \<^verbatim>\<open>unsigned long\<close> (arm64) a 64-bit word. A \<^verbatim>\<open>struct cpumask\<close> is the
  finite set of the bit positions that are set in its bitmap; \<^verbatim>\<open>for_each_cpu\<close>
  visits them in ascending order.
\<close>

type_synonym c_int = "32 word"
type_synonym u32 = "32 word"
type_synonym c_ulong = "64 word"
type_synonym cpumask = "nat set"

definition cpumask_weight :: "cpumask \<Rightarrow> nat" where
  "cpumask_weight m = card m"

definition cpumask_equal :: "cpumask \<Rightarrow> cpumask \<Rightarrow> bool" where
  "cpumask_equal a b = (a = b)"

definition cpumask_test_cpu :: "nat \<Rightarrow> cpumask \<Rightarrow> bool" where
  "cpumask_test_cpu cpu m = (cpu \<in> m)"

definition cpumask_set_cpu :: "nat \<Rightarrow> cpumask \<Rightarrow> cpumask" where
  "cpumask_set_cpu cpu m = insert cpu m"

definition cpumask_clear :: "cpumask \<Rightarrow> cpumask" where
  "cpumask_clear m = {}"

definition for_each_cpu :: "cpumask \<Rightarrow> nat list" where
  "for_each_cpu m = sorted_list_of_set m"

text \<open>
  \<^verbatim>\<open>cpumask_first\<close> returns the lowest set bit; on an empty mask the kernel returns a
  number that is at least \<^verbatim>\<open>nr_cpu_ids\<close>, which is passed in here.
\<close>

definition cpumask_first :: "nat \<Rightarrow> cpumask \<Rightarrow> nat" where
  "cpumask_first nr_cpu_ids m =
     (case for_each_cpu m of [] \<Rightarrow> nr_cpu_ids | c # _ \<Rightarrow> c)"

section \<open>Scheduling-domain degeneracy\<close>

text \<open>
  The \<^verbatim>\<open>SD_*\<close> flag constants come from \<^verbatim>\<open>linux/sched.h\<close>, which is not part
  of the sources at hand: they are parameters of the model, so every theorem below holds
  for whatever bit each flag occupies.
\<close>

record sd_flag_consts =
  SD_LOAD_BALANCE :: c_int
  SD_BALANCE_NEWIDLE :: c_int
  SD_BALANCE_FORK :: c_int
  SD_BALANCE_EXEC :: c_int
  SD_SHARE_CPUCAPACITY :: c_int
  SD_ASYM_CPUCAPACITY :: c_int
  SD_SHARE_PKG_RESOURCES :: c_int
  SD_SHARE_POWERDOMAIN :: c_int
  SD_WAKE_AFFINE :: c_int
  SD_PREFER_SIBLING :: c_int
  SD_SERIALIZE :: c_int

text \<open>
  \<^verbatim>\<open>struct sched_domain\<close>, with the fields the two predicates read: the span, the
  \<^verbatim>\<open>int flags\<close>, and \<^verbatim>\<open>groups\<close>, the pointer to the circular list of groups,
  given here as the list of the groups' spans (the empty list is the \<^verbatim>\<open>NULL\<close>
  pointer). The parent is passed to \<^verbatim>\<open>sd_parent_degenerate\<close> as an argument.
\<close>

record sched_domain =
  span :: cpumask
  flags :: c_int
  groups :: "cpumask list"

definition sched_domain_span :: "sched_domain \<Rightarrow> cpumask" where
  "sched_domain_span sd = span sd"

text \<open>The flags that \<^verbatim>\<open>sd_degenerate\<close> lists under "need at least 2 groups".\<close>

definition degenerate_group_flags :: "sd_flag_consts \<Rightarrow> c_int" where
  "degenerate_group_flags K =
     (SD_LOAD_BALANCE K OR SD_BALANCE_NEWIDLE K OR SD_BALANCE_FORK K OR
      SD_BALANCE_EXEC K OR SD_SHARE_CPUCAPACITY K OR SD_ASYM_CPUCAPACITY K OR
      SD_SHARE_PKG_RESOURCES K OR SD_SHARE_POWERDOMAIN K)"

definition sd_degenerate :: "sd_flag_consts \<Rightarrow> sched_domain \<Rightarrow> int" where
  "sd_degenerate K sd =
     (if cpumask_weight (sched_domain_span sd) = 1 then 1
      else if flags sd AND degenerate_group_flags K \<noteq> 0 \<and> groups sd \<noteq> [] then 0
      else if flags sd AND SD_WAKE_AFFINE K \<noteq> 0 then 0
      else 1)"

text \<open>The mask that \<^verbatim>\<open>sd_parent_degenerate\<close> clears from the parent's flags.\<close>

definition parent_group_flags :: "sd_flag_consts \<Rightarrow> c_int" where
  "parent_group_flags K =
     (SD_LOAD_BALANCE K OR SD_BALANCE_NEWIDLE K OR SD_BALANCE_FORK K OR
      SD_BALANCE_EXEC K OR SD_ASYM_CPUCAPACITY K OR SD_SHARE_CPUCAPACITY K OR
      SD_SHARE_PKG_RESOURCES K OR SD_PREFER_SIBLING K OR SD_SHARE_POWERDOMAIN K)"

text \<open>
  The effective parent flags: \<^verbatim>\<open>pflags\<close> after the block guarded by
  \<^verbatim>\<open>if (parent->groups)\<close>. The locals are \<^verbatim>\<open>unsigned long\<close>; the \<^verbatim>\<open>int\<close>
  flags and the complemented \<^verbatim>\<open>int\<close> masks are sign-extended to them (\<open>scast\<close>).
\<close>

definition parent_pflags :: "sd_flag_consts \<Rightarrow> int \<Rightarrow> sched_domain \<Rightarrow> c_ulong" where
  "parent_pflags K nr_node_ids parent =
     (let pflags = (scast (flags parent) :: c_ulong) in
      if groups parent \<noteq> [] then
        (let pflags1 = pflags AND scast (NOT (parent_group_flags K)) in
         if nr_node_ids = 1 then pflags1 AND scast (NOT (SD_SERIALIZE K)) else pflags1)
      else pflags)"

definition sd_parent_degenerate ::
  "sd_flag_consts \<Rightarrow> int \<Rightarrow> sched_domain \<Rightarrow> sched_domain \<Rightarrow> int" where
  "sd_parent_degenerate K nr_node_ids sd parent =
     (let cflags = (scast (flags sd) :: c_ulong);
          pflags = parent_pflags K nr_node_ids parent in
      if sd_degenerate K parent \<noteq> 0 then 1
      else if \<not> cpumask_equal (sched_domain_span sd) (sched_domain_span parent) then 0
      else if NOT cflags AND pflags \<noteq> 0 then 0
      else 1)"

section \<open>Performance domains\<close>

text \<open>
  Modelled from the spec: \<^verbatim>\<open>struct em_perf_domain\<close> (\<^verbatim>\<open>linux/energy_model.h\<close>),
  \<^verbatim>\<open>struct perf_domain\<close>, \<^verbatim>\<open>struct root_domain\<close> (\<^verbatim>\<open>kernel/sched/sched.h\<close>) and
  \<^verbatim>\<open>struct cpufreq_policy\<close> are declared outside the sources at hand. The records keep
  what \<^verbatim>\<open>build_perf_domains\<close> reads and writes of them: the number of capacity states
  of an energy model (\<^verbatim>\<open>em_pd_nr_cap_states\<close>, a C \<^verbatim>\<open>int\<close>) and its span
  (\<^verbatim>\<open>perf_domain_span\<close>), the energy-model handle of a performance domain, the
  published list of a root domain, and the governor of a policy. A linked list of
  \<^verbatim>\<open>struct perf_domain\<close> (through \<^verbatim>\<open>next\<close>) is a list; \<^verbatim>\<open>NULL\<close> is the empty one.
\<close>

record em_perf_domain =
  nr_cap_states :: c_int
  cpus :: cpumask

record perf_domain =
  em_pd :: em_perf_domain

record root_domain =
  pd :: "perf_domain list"

datatype cpufreq_governor = schedutil_gov | other_gov string

record cpufreq_policy =
  governor :: cpufreq_governor

definition em_pd_nr_cap_states :: "em_perf_domain \<Rightarrow> c_int" where
  "em_pd_nr_cap_states obj = nr_cap_states obj"

definition perf_domain_span :: "perf_domain \<Rightarrow> cpumask" where
  "perf_domain_span p = cpus (em_pd p)"

text \<open>
  What the function consults outside itself: the per-CPU \<^verbatim>\<open>sd_asym_cpucapacity\<close>
  pointer, the root domain of each CPU's run queue (\<^verbatim>\<open>cpu_rq(cpu)->rd\<close>, as the index
  of the root domain), \<^verbatim>\<open>cpufreq_cpu_get\<close>, \<^verbatim>\<open>em_cpu_get\<close>, whether the
  \<^verbatim>\<open>kzalloc\<close> of \<^verbatim>\<open>pd_init(cpu)\<close> succeeds, and \<^verbatim>\<open>sched_debug_enabled\<close>.
\<close>

record bpd_env =
  nr_cpu_ids :: nat
  sd_asym_cpucapacity :: "nat \<Rightarrow> sched_domain option"
  cpu_rq_rd :: "nat \<Rightarrow> nat"
  cpufreq_cpu_get :: "nat \<Rightarrow> cpufreq_policy option"
  em_cpu_get :: "nat \<Rightarrow> em_perf_domain option"
  kzalloc_ok :: "nat \<Rightarrow> bool"
  sched_debug_enabled :: bool

datatype log_msg =
    Info_no_asym cpumask
  | Info_no_EM nat
  | Warn_schedutil_mandatory cpumask
  | Warn_complexity_too_high cpumask
  | Debug_root_domain cpumask "perf_domain list"

text \<open>
  The state the function changes: the root domains, the queue of lists handed to
  \<^verbatim>\<open>call_rcu\<close> with \<^verbatim>\<open>destroy_perf_domain_rcu\<close> (oldest first), and the kernel log.
\<close>

record sched_state =
  root_domains :: "nat \<Rightarrow> root_domain"
  rcu_callbacks :: "perf_domain list list"
  klog :: "log_msg list"

definition printk :: "log_msg \<Rightarrow> sched_state \<Rightarrow> sched_state" where
  "printk m st = st\<lparr>klog := klog st @ [m]\<rparr>"

definition sched_debug :: "bpd_env \<Rightarrow> bool" where
  "sched_debug env = sched_debug_enabled env"

definition find_pd :: "perf_domain list \<Rightarrow> nat \<Rightarrow> perf_domain option" where
  "find_pd pds cpu = find (\<lambda>p. cpumask_test_cpu cpu (perf_domain_span p)) pds"

definition pd_init :: "bpd_env \<Rightarrow> nat \<Rightarrow> sched_state \<Rightarrow> perf_domain option \<times> sched_state" where
  "pd_init env cpu st =
     (case em_cpu_get env cpu of
        None \<Rightarrow> (None, if sched_debug env then printk (Info_no_EM cpu) st else st)
      | Some obj \<Rightarrow>
          if \<not> kzalloc_ok env cpu then (None, st)
          else (Some \<lparr>em_pd = obj\<rparr>, st))"

definition perf_domain_debug ::
  "bpd_env \<Rightarrow> cpumask \<Rightarrow> perf_domain list \<Rightarrow> sched_state \<Rightarrow> sched_state" where
  "perf_domain_debug env cpu_map pds st =
     (if \<not> sched_debug env \<or> pds = [] then st
      else printk (Debug_root_domain cpu_map pds) st)"

definition EM_MAX_COMPLEXITY :: int where
  "EM_MAX_COMPLEXITY = 2048"

text \<open>
  The body of \<^verbatim>\<open>for_each_cpu(i, cpu_map)\<close>, over the CPUs still to visit. The locals
  \<^verbatim>\<open>pd\<close>, \<^verbatim>\<open>nr_pd\<close> and \<^verbatim>\<open>nr_cs\<close> are the accumulator; \<open>None\<close> is
  \<^verbatim>\<open>goto free\<close>.
\<close>

fun build_perf_domains_loop ::
  "bpd_env \<Rightarrow> cpumask \<Rightarrow> nat \<Rightarrow> nat list \<Rightarrow> perf_domain list \<times> c_int \<times> c_int \<Rightarrow>
   sched_state \<Rightarrow> (perf_domain list \<times> c_int \<times> c_int) option \<times> sched_state" where
  "build_perf_domains_loop env cpu_map rd [] acc st = (Some acc, st)"
| "build_perf_domains_loop env cpu_map rd (i # rest) (pds, nr_pd, nr_cs) st =
     (if find_pd pds i \<noteq> None then
        build_perf_domains_loop env cpu_map rd rest (pds, nr_pd, nr_cs) st
      else
        (case cpufreq_cpu_get env i of
           None \<Rightarrow> (None, st)
         | Some policy \<Rightarrow>
             if governor policy \<noteq> schedutil_gov then
               (None, if pd (root_domains st rd) \<noteq> []
                      then printk (Warn_schedutil_mandatory cpu_map) st else st)
             else
               (case pd_init env i st of
                  (None, st1) \<Rightarrow> (None, st1)
                | (Some tmp, st1) \<Rightarrow>
                    build_perf_domains_loop env cpu_map rd rest
                      (tmp # pds, nr_pd + 1, nr_cs + em_pd_nr_cap_states (em_pd tmp)) st1)))"

text \<open>
  The two exits. \<^verbatim>\<open>rcu_assign_pointer(rd->pd, new)\<close> publishes \<open>new\<close>; a previous
  non-\<^verbatim>\<open>NULL\<close> list is handed to \<^verbatim>\<open>call_rcu\<close>. The label \<^verbatim>\<open>free\<close> publishes
  \<^verbatim>\<open>NULL\<close> (its \<^verbatim>\<open>free_pd(pd)\<close> releases the local list, which the state does not
  hold).
\<close>

definition rd_publish :: "nat \<Rightarrow> perf_domain list \<Rightarrow> sched_state \<Rightarrow> sched_state" where
  "rd_publish rd new st =
     (let tmp = pd (root_domains st rd);
          st1 = st\<lparr>root_domains := (root_domains st)(rd := (root_domains st rd)\<lparr>pd := new\<rparr>)\<rparr>
      in if tmp \<noteq> [] then st1\<lparr>rcu_callbacks := rcu_callbacks st1 @ [tmp]\<rparr> else st1)"

text \<open>
  The part after the loop: the complexity check on the C \<^verbatim>\<open>int\<close> product, then
  either \<^verbatim>\<open>goto free\<close> with the warning, or the debug print and the attach.
\<close>

definition build_perf_domains_attach ::
  "bpd_env \<Rightarrow> cpumask \<Rightarrow> nat \<Rightarrow> c_int \<Rightarrow> perf_domain list \<times> c_int \<times> c_int \<Rightarrow>
   sched_state \<Rightarrow> sched_state" where
  "build_perf_domains_attach env cpu_map rd nr_cpus acc st =
     (case acc of (pds, nr_pd, nr_cs) \<Rightarrow>
        if sint (nr_pd * (nr_cs + nr_cpus)) > EM_MAX_COMPLEXITY then
          rd_publish rd [] (printk (Warn_complexity_too_high cpu_map) st)
        else rd_publish rd pds (perf_domain_debug env cpu_map pds st))"

definition build_perf_domains :: "bpd_env \<Rightarrow> cpumask \<Rightarrow> sched_state \<Rightarrow> sched_state" where
  "build_perf_domains env cpu_map st =
     (let nr_cpus = (of_nat (cpumask_weight cpu_map) :: c_int);
          cpu = cpumask_first (nr_cpu_ids env) cpu_map;
          rd = cpu_rq_rd env cpu
      in if sd_asym_cpucapacity env cpu = None then
           rd_publish rd []
             (if sched_debug env then printk (Info_no_asym cpu_map) st else st)
         else
           (case build_perf_domains_loop env cpu_map rd (for_each_cpu cpu_map) ([], 0, 0) st of
              (None, st1) \<Rightarrow> rd_publish rd [] st1
            | (Some acc, st1) \<Rightarrow> build_perf_domains_attach env cpu_map rd nr_cpus acc st1))"

section \<open>The topology table\<close>

text \<open>
  \<^verbatim>\<open>struct cpu_topology\<close> and the global array \<^verbatim>\<open>cpu_topology[NR_CPUS]\<close>. The array
  and the per-CPU variable \<^verbatim>\<open>cpu_efficiency\<close> are functions of the CPU number; the code
  indexes them with possible CPUs only. \<^verbatim>\<open>cluster_id_static\<close> is the
  \<^verbatim>\<open>static int cluster_id\<close> of \<^verbatim>\<open>parse_cluster\<close>.
\<close>

record cpu_topology =
  thread_id :: c_int
  core_id :: c_int
  cluster_id :: c_int
  thread_sibling :: cpumask
  core_sibling :: cpumask

record topo_state =
  cpu_topology :: "nat \<Rightarrow> cpu_topology"
  cpu_efficiency :: "nat \<Rightarrow> c_ulong"
  cluster_id_static :: c_int

definition arch_get_cpu_efficiency :: "topo_state \<Rightarrow> nat \<Rightarrow> c_ulong" where
  "arch_get_cpu_efficiency st cpu = cpu_efficiency st cpu"

definition cpu_coregroup_mask :: "topo_state \<Rightarrow> nat \<Rightarrow> cpumask" where
  "cpu_coregroup_mask st cpu = core_sibling (cpu_topology st cpu)"

section \<open>The device tree\<close>

text \<open>
  Modelled from the spec: the device-tree accessors (\<^verbatim>\<open>of_get_child_by_name\<close>,
  \<^verbatim>\<open>of_parse_phandle\<close>, \<^verbatim>\<open>of_get_cpu_node\<close>, \<^verbatim>\<open>of_find_node_by_path\<close>,
  \<^verbatim>\<open>of_property_read_u32\<close>) and \<^verbatim>\<open>struct device_node\<close> live outside the sources at
  hand. A node keeps what the parser reads of it: the target of its \<^verbatim>\<open>cpu\<close> phandle
  (the identity of a CPU node, if the property is there) and its named children. The
  names the parser asks for are built with \<^verbatim>\<open>snprintf\<close> from \<^verbatim>\<open>cluster%d\<close>,
  \<^verbatim>\<open>core%d\<close> and \<^verbatim>\<open>thread%d\<close>; they are the constructors \<open>Cluster i\<close>,
  \<open>Core i\<close> and \<open>Thread i\<close> (the 10-byte buffer holds such a name in full for
  every index a real tree has). A lookup returns the first child of that name.
\<close>

datatype node_name = Cluster nat | Core nat | Thread nat

datatype device_node =
  Device_node (cpu_phandle: "nat option") (children: "(node_name \<times> device_node) list")

datatype cpus_node = Cpus_node (cpu_map_node: "device_node option")

text \<open>
  The rest of the description: the possible CPUs, the CPU node of each logical CPU
  (\<^verbatim>\<open>of_get_cpu_node\<close>, by identity), the \<^verbatim>\<open>efficiency\<close> property of a CPU node, and
  the node \<^verbatim>\<open>/cpus\<close> with its optional child \<^verbatim>\<open>cpu-map\<close>.
\<close>

record dt_env =
  cpu_possible_mask :: cpumask
  of_get_cpu_node :: "nat \<Rightarrow> nat option"
  of_efficiency :: "nat \<Rightarrow> u32 option"
  of_find_cpus :: "cpus_node option"

definition for_each_possible_cpu :: "dt_env \<Rightarrow> nat list" where
  "for_each_possible_cpu env = for_each_cpu (cpu_possible_mask env)"

definition of_get_child_by_name :: "device_node \<Rightarrow> node_name \<Rightarrow> device_node option" where
  "of_get_child_by_name node name = map_of (children node) name"

text \<open>
  Every error the parser returns is \<^verbatim>\<open>-EINVAL\<close>; the constructors tell apart the
  \<^verbatim>\<open>pr_err\<close> message printed before the return (\<open>Cpu_not_in_map\<close> is the silent
  \<^verbatim>\<open>ret = -EINVAL\<close> of \<^verbatim>\<open>parse_dt_topology\<close>). \<open>None\<close> is the return value 0.
  The warnings (\<^verbatim>\<open>pr_warn\<close>, \<^verbatim>\<open>pr_crit\<close>, \<^verbatim>\<open>WARN_ON\<close>) change nothing and are left
  out.
\<close>

datatype dt_error =
    Thread_without_cpu
  | Core_with_threads_and_cpu
  | Leaf_core_without_cpu
  | Core_under_root
  | Core_in_nonleaf_cluster
  | Cpu_not_in_map

definition get_cpu_for_node :: "dt_env \<Rightarrow> device_node \<Rightarrow> int" where
  "get_cpu_for_node env node =
     (case cpu_phandle node of
        None \<Rightarrow> - 1
      | Some cpu_node \<Rightarrow>
          (case find (\<lambda>cpu. of_get_cpu_node env cpu = Some cpu_node) (for_each_possible_cpu env) of
             Some cpu \<Rightarrow> int cpu
           | None \<Rightarrow> - 1))"

text \<open>
  The index in a child name; \<open>index_bound\<close> exceeds the index of every child of a node,
  so a scan \<open>i = 0, 1, ...\<close> that goes on while the child exists ends below it.
\<close>

fun name_index :: "node_name \<Rightarrow> nat" where
  "name_index (Cluster i) = i"
| "name_index (Core i) = i"
| "name_index (Thread i) = i"

definition index_bound :: "device_node \<Rightarrow> nat" where
  "index_bound node = Suc (fold max (map (\<lambda>c. name_index (fst c)) (children node)) 0)"

lemma fold_max_ge: "(a::nat) \<le> fold max xs a"
  by (induction xs arbitrary: a) (auto intro: order_trans[OF max.cobounded2])

lemma fold_max_mem: "(x::nat) \<in> set xs \<Longrightarrow> x \<le> fold max xs a"
proof (induction xs arbitrary: a)
  case Nil
  then show ?case by simp
next
  case (Cons y ys)
  show ?case
  proof (cases "x = y")
    case True
    have "y \<le> max y a" by simp
    also have "\<dots> \<le> fold max ys (max y a)" by (rule fold_max_ge)
    finally show ?thesis using True by simp
  next
    case False
    then show ?thesis using Cons by simp
  qed
qed

lemma child_index_less:
  "of_get_child_by_name node name = Some c \<Longrightarrow> name_index name < index_bound node"
proof -
  assume "of_get_child_by_name node name = Some c"
  then have "(name, c) \<in> set (children node)"
    by (simp add: of_get_child_by_name_def map_of_SomeD)
  then have "name_index name \<in> set (map (\<lambda>c. name_index (fst c)) (children node))"
    by force
  then show ?thesis
    unfolding index_bound_def by (simp add: fold_max_mem less_Suc_eq_le)
qed

lemma child_size_less:
  "of_get_child_by_name node name = Some c \<Longrightarrow> size c < size node"
proof -
  assume "of_get_child_by_name node name = Some c"
  then have m: "(name, c) \<in> set (children node)"
    by (simp add: of_get_child_by_name_def map_of_SomeD)
  have "\<And>cs. (name, c) \<in> set cs \<Longrightarrow> size c < Suc (size_list (size_prod (\<lambda>_. 0) size) cs)"
  proof -
    fix cs :: "(node_name \<times> device_node) list"
    show "(name, c) \<in> set cs \<Longrightarrow> size c < Suc (size_list (size_prod (\<lambda>_. 0) size) cs)"
      by (induction cs) auto
  qed
  from this[OF m] show ?thesis by (cases node) simp
qed

section \<open>Discovery\<close>

text \<open>
  \<^verbatim>\<open>parse_core\<close>: first the \<^verbatim>\<open>do ... while (t)\<close> scan of \<^verbatim>\<open>thread0\<close>,
  \<^verbatim>\<open>thread1\<close>, ... (the local \<^verbatim>\<open>leaf\<close> is passed along), then the core's own CPU.
  The writes to \<^verbatim>\<open>cpu_topology[cpu]\<close> made before an error stay in the state that is
  returned with it.
\<close>

function parse_core_threads ::
  "dt_env \<Rightarrow> device_node \<Rightarrow> c_int \<Rightarrow> c_int \<Rightarrow> nat \<Rightarrow> bool \<Rightarrow> topo_state \<Rightarrow>
   dt_error option \<times> bool \<times> topo_state" where
  "parse_core_threads env core cl co i leaf st =
     (case of_get_child_by_name core (Thread i) of
        None \<Rightarrow> (None, leaf, st)
      | Some t \<Rightarrow>
          (let cpu = get_cpu_for_node env t in
           if cpu \<ge> 0 then
             parse_core_threads env core cl co (Suc i) False
               (st\<lparr>cpu_topology := (cpu_topology st)(nat cpu :=
                    (cpu_topology st (nat cpu))
                      \<lparr>thread_id := of_nat i, core_id := co, cluster_id := cl\<rparr>)\<rparr>)
           else (Some Thread_without_cpu, False, st)))"
  by pat_completeness auto
termination
  by (relation "measure (\<lambda>(env, core, cl, co, i, leaf, st). index_bound core - i)")
     (auto dest: child_index_less)

definition parse_core ::
  "dt_env \<Rightarrow> device_node \<Rightarrow> c_int \<Rightarrow> c_int \<Rightarrow> topo_state \<Rightarrow> dt_error option \<times> topo_state" where
  "parse_core env core cl co st =
     (case parse_core_threads env core cl co 0 True st of
        (Some e, leaf, st1) \<Rightarrow> (Some e, st1)
      | (None, leaf, st1) \<Rightarrow>
          (let cpu = get_cpu_for_node env core in
           if cpu \<ge> 0 then
             (if \<not> leaf then (Some Core_with_threads_and_cpu, st1)
              else (None, st1\<lparr>cpu_topology := (cpu_topology st1)(nat cpu :=
                      (cpu_topology st1 (nat cpu))\<lparr>core_id := co, cluster_id := cl\<rparr>)\<rparr>))
           else if leaf then (Some Leaf_core_without_cpu, st1)
           else (None, st1)))"

text \<open>
  The second loop of \<^verbatim>\<open>parse_cluster\<close>, over \<^verbatim>\<open>core0\<close>, \<^verbatim>\<open>core1\<close>, ...; the
  locals \<^verbatim>\<open>core_id\<close> and \<^verbatim>\<open>has_cores\<close> are passed along, \<^verbatim>\<open>core_id++\<close> happens
  only in the call of \<^verbatim>\<open>parse_core\<close>.
\<close>

function parse_cluster_cores ::
  "dt_env \<Rightarrow> device_node \<Rightarrow> nat \<Rightarrow> bool \<Rightarrow> nat \<Rightarrow> c_int \<Rightarrow> bool \<Rightarrow> topo_state \<Rightarrow>
   dt_error option \<times> bool \<times> topo_state" where
  "parse_cluster_cores env cluster depth leaf i co has_cores st =
     (case of_get_child_by_name cluster (Core i) of
        None \<Rightarrow> (None, has_cores, st)
      | Some c \<Rightarrow>
          if depth = 0 then (Some Core_under_root, True, st)
          else if leaf then
            (case parse_core env c (cluster_id_static st) co st of
               (Some e, st1) \<Rightarrow> (Some e, True, st1)
             | (None, st1) \<Rightarrow>
                 parse_cluster_cores env cluster depth leaf (Suc i) (co + 1) True st1)
          else (Some Core_in_nonleaf_cluster, True, st))"
  by pat_completeness auto
termination
  by (relation "measure (\<lambda>(env, cluster, depth, leaf, i, co, has_cores, st).
                  index_bound cluster - i)")
     (auto dest: child_index_less)

text \<open>
  \<^verbatim>\<open>parse_cluster\<close> and its first loop, over \<^verbatim>\<open>cluster0\<close>, \<^verbatim>\<open>cluster1\<close>, ...,
  which calls \<^verbatim>\<open>parse_cluster\<close> on each child found. The depth of a tree is far
  below the range of the C \<^verbatim>\<open>int depth\<close>, a natural number here.
\<close>

function parse_cluster ::
    "dt_env \<Rightarrow> device_node \<Rightarrow> nat \<Rightarrow> topo_state \<Rightarrow> dt_error option \<times> topo_state"
  and parse_cluster_children ::
    "dt_env \<Rightarrow> device_node \<Rightarrow> nat \<Rightarrow> nat \<Rightarrow> bool \<Rightarrow> topo_state \<Rightarrow>
     dt_error option \<times> bool \<times> topo_state" where
  "parse_cluster env cluster depth st =
     (case parse_cluster_children env cluster depth 0 True st of
        (Some e, leaf, st1) \<Rightarrow> (Some e, st1)
      | (None, leaf, st1) \<Rightarrow>
          (case parse_cluster_cores env cluster depth leaf 0 0 False st1 of
             (Some e, has_cores, st2) \<Rightarrow> (Some e, st2)
           | (None, has_cores, st2) \<Rightarrow>
               (None, if leaf then st2\<lparr>cluster_id_static := cluster_id_static st2 + 1\<rparr>
                      else st2)))"
| "parse_cluster_children env cluster depth i leaf st =
     (case of_get_child_by_name cluster (Cluster i) of
        None \<Rightarrow> (None, leaf, st)
      | Some c \<Rightarrow>
          (case parse_cluster env c (Suc depth) st of
             (Some e, st1) \<Rightarrow> (Some e, False, st1)
           | (None, st1) \<Rightarrow> parse_cluster_children env cluster depth (Suc i) False st1))"
  by pat_completeness auto
termination
  by (relation "inv_image (less_than <*lex*> less_than)
        (\<lambda>x. case x of
           Inl (env, cluster, depth, st) \<Rightarrow> (size cluster, Suc (index_bound cluster))
         | Inr (env, cluster, depth, i, leaf, st) \<Rightarrow> (size cluster, index_bound cluster - i))")
     (auto dest: child_index_less child_size_less)

text \<open>
  The check of \<^verbatim>\<open>parse_dt_topology\<close> over the possible CPUs: a CPU whose
  \<^verbatim>\<open>cluster_id\<close> is still -1 sets \<^verbatim>\<open>ret\<close>, and the \<^verbatim>\<open>efficiency\<close> property of the
  CPU's node, when it can be read, is stored in \<^verbatim>\<open>cpu_efficiency\<close> (a \<^verbatim>\<open>u32\<close>
  widened to \<^verbatim>\<open>unsigned long\<close>).
\<close>

definition read_efficiency :: "dt_env \<Rightarrow> nat \<Rightarrow> u32 option" where
  "read_efficiency env cpu =
     (case of_get_cpu_node env cpu of None \<Rightarrow> None | Some cn \<Rightarrow> of_efficiency env cn)"

definition check_cpu ::
  "dt_env \<Rightarrow> nat \<Rightarrow> dt_error option \<times> topo_state \<Rightarrow> dt_error option \<times> topo_state" where
  "check_cpu env cpu rs =
     (case rs of (ret, st) \<Rightarrow>
        (let ret1 = (if cluster_id (cpu_topology st cpu) = - 1 then Some Cpu_not_in_map else ret)
         in case read_efficiency env cpu of
              None \<Rightarrow> (ret1, st)
            | Some efficiency \<Rightarrow>
                (ret1, st\<lparr>cpu_efficiency := (cpu_efficiency st)(cpu := ucast efficiency)\<rparr>)))"

definition parse_dt_topology :: "dt_env \<Rightarrow> topo_state \<Rightarrow> dt_error option \<times> topo_state" where
  "parse_dt_topology env st =
     (case of_find_cpus env of
        None \<Rightarrow> (None, st)
      | Some cn \<Rightarrow>
          (case cpu_map_node cn of
             None \<Rightarrow> (None, st)
           | Some cmap \<Rightarrow>
               (case parse_cluster env cmap 0 st of
                  (Some e, st1) \<Rightarrow> (Some e, st1)
                | (None, st1) \<Rightarrow> fold (check_cpu env) (for_each_possible_cpu env) (None, st1))))"

section \<open>Sibling masks, reset and initialisation\<close>

text \<open>
  One round of the loop of \<^verbatim>\<open>update_siblings_masks\<close>, for the CPU \<open>cpu\<close> it visits.
  \<^verbatim>\<open>cpu_topo\<close> and \<^verbatim>\<open>cpuid_topo\<close> point into the same array and are the same entry
  when \<open>cpu = cpuid\<close>; the writes are done one after the other on the table.
\<close>

definition set_core_sibling :: "nat \<Rightarrow> nat \<Rightarrow> (nat \<Rightarrow> cpu_topology) \<Rightarrow> nat \<Rightarrow> cpu_topology" where
  "set_core_sibling c entry tbl =
     tbl(entry := (tbl entry)\<lparr>core_sibling := cpumask_set_cpu c (core_sibling (tbl entry))\<rparr>)"

definition set_thread_sibling :: "nat \<Rightarrow> nat \<Rightarrow> (nat \<Rightarrow> cpu_topology) \<Rightarrow> nat \<Rightarrow> cpu_topology" where
  "set_thread_sibling c entry tbl =
     tbl(entry := (tbl entry)\<lparr>thread_sibling := cpumask_set_cpu c (thread_sibling (tbl entry))\<rparr>)"

definition update_siblings_step ::
  "nat \<Rightarrow> nat \<Rightarrow> (nat \<Rightarrow> cpu_topology) \<Rightarrow> nat \<Rightarrow> cpu_topology" where
  "update_siblings_step cpuid cpu tbl =
     (if cluster_id (tbl cpuid) \<noteq> cluster_id (tbl cpu) then tbl
      else
        (let tbl1 = set_core_sibling cpuid cpu tbl;
             tbl2 = (if cpu \<noteq> cpuid then set_core_sibling cpu cpuid tbl1 else tbl1)
         in if core_id (tbl2 cpuid) \<noteq> core_id (tbl2 cpu) then tbl2
            else
              (let tbl3 = set_thread_sibling cpuid cpu tbl2
               in if cpu \<noteq> cpuid then set_thread_sibling cpu cpuid tbl3 else tbl3)))"

definition update_siblings_masks :: "dt_env \<Rightarrow> nat \<Rightarrow> topo_state \<Rightarrow> topo_state" where
  "update_siblings_masks env cpuid st =
     st\<lparr>cpu_topology := fold (update_siblings_step cpuid) (for_each_possible_cpu env)
                          (cpu_topology st)\<rparr>"

definition reset_entry :: "nat \<Rightarrow> (nat \<Rightarrow> cpu_topology) \<Rightarrow> nat \<Rightarrow> cpu_topology" where
  "reset_entry cpu tbl =
     tbl(cpu := (tbl cpu)\<lparr>thread_id := - 1, core_id := 0, cluster_id := - 1,
                         core_sibling := cpumask_set_cpu cpu (cpumask_clear (core_sibling (tbl cpu))),
                         thread_sibling :=
                           cpumask_set_cpu cpu (cpumask_clear (thread_sibling (tbl cpu)))\<rparr>)"

definition reset_cpu_topology :: "dt_env \<Rightarrow> topo_state \<Rightarrow> topo_state" where
  "reset_cpu_topology env st =
     st\<lparr>cpu_topology := fold reset_entry (for_each_possible_cpu env) (cpu_topology st)\<rparr>"

text \<open>
  \<^verbatim>\<open>init_cpu_topology\<close>. Its last two calls, \<^verbatim>\<open>set_sched_topology\<close> and
  \<^verbatim>\<open>init_sched_energy_costs\<close>, act on scheduler state outside this file.
\<close>

definition init_cpu_topology :: "dt_env \<Rightarrow> topo_state \<Rightarrow> topo_state" where
  "init_cpu_topology env st =
     (case parse_dt_topology env (reset_cpu_topology env st) of
        (Some e, st1) \<Rightarrow> reset_cpu_topology env st1
      | (None, st1) \<Rightarrow> fold (update_siblings_masks env) (for_each_possible_cpu env) st1)"

section \<open>Positions in a map\<close>



text \<open>
  The three properties of the sibling masks over a set \<open>P\<close> of CPUs, as one predicate
  on the table: every CPU is its own core sibling, core siblings are mutual, and thread
  siblings are core siblings.
\<close>

definition sib_inv :: "nat set \<Rightarrow> (nat \<Rightarrow> cpu_topology) \<Rightarrow> bool" where
  "sib_inv P tbl =
     ((\<forall>c\<in>P. c \<in> core_sibling (tbl c)) \<and>
      (\<forall>c1\<in>P. \<forall>c2\<in>P. c2 \<in> core_sibling (tbl c1) \<longrightarrow> c1 \<in> core_sibling (tbl c2)) \<and>
      (\<forall>c\<in>P. thread_sibling (tbl c) \<subseteq> core_sibling (tbl c)))"

text \<open>The two sibling masks of a CPU's entry.\<close>

definition masks :: "topo_state \<Rightarrow> nat \<Rightarrow> cpumask \<times> cpumask" where
  "masks st c = (core_sibling (cpu_topology st c), thread_sibling (cpu_topology st c))"

section \<open>Examples used by witnesses\<close>

text \<open>One bit per flag, for the concrete instances below.\<close>

definition example_flags :: sd_flag_consts where
  "example_flags =
     \<lparr>SD_LOAD_BALANCE = 0x0001, SD_BALANCE_NEWIDLE = 0x0002, SD_BALANCE_FORK = 0x0008,
      SD_BALANCE_EXEC = 0x0004, SD_SHARE_CPUCAPACITY = 0x0080, SD_ASYM_CPUCAPACITY = 0x0040,
      SD_SHARE_PKG_RESOURCES = 0x0200, SD_SHARE_POWERDOMAIN = 0x0100,
      SD_WAKE_AFFINE = 0x0020, SD_PREFER_SIBLING = 0x1000, SD_SERIALIZE = 0x0400\<rparr>"

text \<open>
  Eight CPUs in five performance domains (\<open>{0,1}\<close>, \<open>{2,3}\<close>, \<open>{4,5}\<close>, \<open>{6}\<close>,
  \<open>{7}\<close>) of ten capacity states each, all driven by schedutil, on one root domain.
\<close>

definition example_em :: "nat \<Rightarrow> em_perf_domain option" where
  "example_em cpu =
     (if cpu < 2 then Some \<lparr>nr_cap_states = 10, cpus = {0, 1}\<rparr>
      else if cpu < 4 then Some \<lparr>nr_cap_states = 10, cpus = {2, 3}\<rparr>
      else if cpu < 6 then Some \<lparr>nr_cap_states = 10, cpus = {4, 5}\<rparr>
      else if cpu < 8 then Some \<lparr>nr_cap_states = 10, cpus = {cpu}\<rparr>
      else None)"

definition example_env :: "bool \<Rightarrow> bpd_env" where
  "example_env marker =
     \<lparr>nr_cpu_ids = 8,
      sd_asym_cpucapacity =
        (\<lambda>cpu. if marker then Some \<lparr>span = {0, 1, 2, 3, 4, 5, 6, 7}, flags = 0x0041,
                                  groups = [{0, 1, 2, 3}, {4, 5, 6, 7}]\<rparr> else None),
      cpu_rq_rd = (\<lambda>cpu. 0),
      cpufreq_cpu_get = (\<lambda>cpu. Some \<lparr>governor = schedutil_gov\<rparr>),
      em_cpu_get = example_em,
      kzalloc_ok = (\<lambda>cpu. True),
      sched_debug_enabled = False\<rparr>"

definition example_cpu_map :: cpumask where
  "example_cpu_map = {0, 1, 2, 3, 4, 5, 6, 7}"

definition example_pds :: "perf_domain list" where
  "example_pds =
     [\<lparr>em_pd = \<lparr>nr_cap_states = 10, cpus = {7}\<rparr>\<rparr>,
      \<lparr>em_pd = \<lparr>nr_cap_states = 10, cpus = {6}\<rparr>\<rparr>,
      \<lparr>em_pd = \<lparr>nr_cap_states = 10, cpus = {4, 5}\<rparr>\<rparr>,
      \<lparr>em_pd = \<lparr>nr_cap_states = 10, cpus = {2, 3}\<rparr>\<rparr>,
      \<lparr>em_pd = \<lparr>nr_cap_states = 10, cpus = {0, 1}\<rparr>\<rparr>]"

text \<open>
  Up to sixteen CPUs with a performance domain each, of \<open>n\<close> capacity states, all
  driven by schedutil, and the list of the domains of the CPUs \<open>cs\<close>.
\<close>

definition example_env_per_cpu :: "c_int \<Rightarrow> bpd_env" where
  "example_env_per_cpu n =
     \<lparr>nr_cpu_ids = 16,
      sd_asym_cpucapacity =
        (\<lambda>cpu. Some \<lparr>span = {0, 1}, flags = 0x0041, groups = [{0}, {1}]\<rparr>),
      cpu_rq_rd = (\<lambda>cpu. 0),
      cpufreq_cpu_get = (\<lambda>cpu. Some \<lparr>governor = schedutil_gov\<rparr>),
      em_cpu_get = (\<lambda>cpu. Some \<lparr>nr_cap_states = n, cpus = {cpu}\<rparr>),
      kzalloc_ok = (\<lambda>cpu. True),
      sched_debug_enabled = False\<rparr>"

definition example_cpu_map16 :: cpumask where
  "example_cpu_map16 = {0, 1, 2, 3, 4, 5, 6, 7, 8, 9, 10, 11, 12, 13, 14, 15}"

definition example_pds_per_cpu :: "c_int \<Rightarrow> nat list \<Rightarrow> perf_domain list" where
  "example_pds_per_cpu n cs = map (\<lambda>cpu. \<lparr>em_pd = \<lparr>nr_cap_states = n, cpus = {cpu}\<rparr>\<rparr>) cs"

text \<open>A state with nothing published, and one with a one-domain list published.\<close>

definition example_state :: "perf_domain list \<Rightarrow> sched_state" where
  "example_state published =
     \<lparr>root_domains = (\<lambda>rd. \<lparr>pd = published\<rparr>), rcu_callbacks = [], klog = []\<rparr>"

definition example_old_pds :: "perf_domain list" where
  "example_old_pds = [\<lparr>em_pd = \<lparr>nr_cap_states = 4, cpus = {0, 1, 2, 3, 4, 5, 6, 7}\<rparr>\<rparr>]"

text \<open>
  A description of three possible CPUs, whose CPU nodes are 100, 101 and 102; the first
  two carry an \<^verbatim>\<open>efficiency\<close> property. The node \<^verbatim>\<open>/cpus\<close> is the parameter.
\<close>

definition example_dt_env :: "cpus_node option \<Rightarrow> dt_env" where
  "example_dt_env cn =
     \<lparr>cpu_possible_mask = {0, 1, 2},
      of_get_cpu_node = (\<lambda>cpu. if cpu < 3 then Some (100 + cpu) else None),
      of_efficiency = (\<lambda>n. if n = 100 then Some 2048 else if n = 101 then Some 1024 else None),
      of_find_cpus = cn\<rparr>"




definition example_map_missing :: device_node where
  "example_map_missing =
     Device_node None
       [(Cluster 0, Device_node None
           [(Core 0, Device_node (Some 100) []),
            (Core 1, Device_node (Some 101) [])])]"




text \<open>The table and the per-CPU efficiency as they are at boot, before the reset.\<close>

definition example_topo_state :: topo_state where
  "example_topo_state =
     \<lparr>cpu_topology = (\<lambda>cpu. \<lparr>thread_id = 0, core_id = 0, cluster_id = 0,
                               thread_sibling = {}, core_sibling = {}\<rparr>),
      cpu_efficiency = (\<lambda>cpu. 1024),
      cluster_id_static = 0\<rparr>"

text \<open>The entry that \<^verbatim>\<open>reset_cpu_topology\<close> writes for a CPU.\<close>

definition flat_entry :: "nat \<Rightarrow> cpu_topology" where
  "flat_entry cpu =
     \<lparr>thread_id = - 1, core_id = 0, cluster_id = - 1,
      thread_sibling = {cpu}, core_sibling = {cpu}\<rparr>"

section \<open>Theorems: scheduling-domain degeneracy\<close>

text \<open>
  C8. A domain whose span holds exactly one CPU is degenerate, whatever its flags and
  however many groups it has.
\<close>

theorem sd_degenerate_single_cpu:
  "cpumask_weight (span sd) = 1 \<Longrightarrow> sd_degenerate K sd = 1"
  by (simp add: sd_degenerate_def sched_domain_span_def)

theorem sd_degenerate_single_cpu_witness:
  "cpumask_weight (span \<lparr>span = {3}, flags = 0x0021, groups = [{3}, {4}]\<rparr>) = 1 \<and>
   sd_degenerate example_flags \<lparr>span = {3}, flags = 0x0021, groups = [{3}, {4}]\<rparr> = 1"
  using sd_degenerate_single_cpu
    [of "\<lparr>span = {3}, flags = 0x0021, groups = [{3}, {4}]\<rparr>" example_flags]
  by (simp add: cpumask_weight_def)

text \<open>
  C4 (as amended). When the parent is not degenerate and the two spans differ,
  \<^verbatim>\<open>sd_parent_degenerate\<close> returns 0. The test of the parent's own degeneracy comes
  first in the function and returns 1 whatever the spans are.
\<close>

theorem sd_parent_degenerate_span_differs:
  "sd_degenerate K parent = 0 \<Longrightarrow> span sd \<noteq> span parent \<Longrightarrow>
   sd_parent_degenerate K nr_node_ids sd parent = 0"
  by (simp add: sd_parent_degenerate_def sched_domain_span_def cpumask_equal_def)

theorem sd_parent_degenerate_span_differs_witness:
  "sd_degenerate example_flags \<lparr>span = {0, 1}, flags = 0x0001, groups = [{0}, {1}]\<rparr> = 0 \<and>
   span \<lparr>span = {0}, flags = 0x0001, groups = [{0}]\<rparr>
     \<noteq> span \<lparr>span = {0, 1}, flags = 0x0001, groups = [{0}, {1}]\<rparr> \<and>
   sd_parent_degenerate example_flags 1
     \<lparr>span = {0}, flags = 0x0001, groups = [{0}]\<rparr>
     \<lparr>span = {0, 1}, flags = 0x0001, groups = [{0}, {1}]\<rparr> = 0"
  using sd_parent_degenerate_span_differs
    [of example_flags "\<lparr>span = {0, 1}, flags = 0x0001, groups = [{0}, {1}]\<rparr>"
        "\<lparr>span = {0}, flags = 0x0001, groups = [{0}]\<rparr>" 1]
  by (simp add: sd_degenerate_def sched_domain_span_def cpumask_weight_def example_flags_def
      degenerate_group_flags_def)

text \<open>
  The claim as first stated fails where the parent is degenerate: a parent that spans the
  single CPU 0 and a child that spans CPUs 0 and 1 have different spans, and the function
  returns 1.
\<close>

theorem sd_parent_degenerate_span_differs_counterexample:
  "span \<lparr>span = {0, 1}, flags = 0, groups = [{0}, {1}]\<rparr>
     \<noteq> span \<lparr>span = {0}, flags = 0x0001, groups = [{0}]\<rparr> \<and>
   sd_parent_degenerate example_flags 1
     \<lparr>span = {0, 1}, flags = 0, groups = [{0}, {1}]\<rparr>
     \<lparr>span = {0}, flags = 0x0001, groups = [{0}]\<rparr> = 1"
  by (simp add: sd_parent_degenerate_def sd_degenerate_def sched_domain_span_def
      cpumask_weight_def)

text \<open>
  C3. The function at a parent with two groups: the parent spans CPUs 0 and 1 in two
  groups and carries the load-balance flag, so it is not degenerate; the child has the
  same span and no flag. The guard \<^verbatim>\<open>if (parent->groups)\<close> holds for the non-\<^verbatim>\<open>NULL\<close>
  group list, the load-balance flag is cleared from the effective parent flags, and the
  function returns 1, although the parent has more than one group and its flag is
  missing from the child.
\<close>

theorem sd_parent_degenerate_two_groups:
  "sd_degenerate example_flags \<lparr>span = {0, 1}, flags = 0x0001, groups = [{0}, {1}]\<rparr> = 0 \<and>
   span \<lparr>span = {0, 1}, flags = 0, groups = [{0, 1}]\<rparr>
     = span \<lparr>span = {0, 1}, flags = 0x0001, groups = [{0}, {1}]\<rparr> \<and>
   length (groups \<lparr>span = {0, 1}, flags = 0x0001, groups = [{0}, {1}]\<rparr>) = 2 \<and>
   flags \<lparr>span = {0, 1}, flags = 0x0001, groups = [{0}, {1}]\<rparr>
     AND NOT (flags \<lparr>span = {0, 1}, flags = 0, groups = [{0, 1}]\<rparr>)
     = SD_LOAD_BALANCE example_flags \<and>
   SD_LOAD_BALANCE example_flags \<noteq> 0 \<and>
   parent_pflags example_flags 1 \<lparr>span = {0, 1}, flags = 0x0001, groups = [{0}, {1}]\<rparr> = 0 \<and>
   sd_parent_degenerate example_flags 1
     \<lparr>span = {0, 1}, flags = 0, groups = [{0, 1}]\<rparr>
     \<lparr>span = {0, 1}, flags = 0x0001, groups = [{0}, {1}]\<rparr> = 1"
  by (simp add: sd_parent_degenerate_def sd_degenerate_def sched_domain_span_def
      cpumask_weight_def example_flags_def degenerate_group_flags_def parent_pflags_def
      parent_group_flags_def cpumask_equal_def)

subsection \<open>What the function computes\<close>

text \<open>
  The \<^verbatim>\<open>unsigned long\<close> locals carry the sign-extended \<^verbatim>\<open>int\<close> flags, and the
  bitwise operations commute with the extension. So for a parent that is not degenerate
  and has the child's span, the function returns 1 iff every effective parent flag is set
  in the child's flags, where the effective flags are the parent's, cleared of the
  group flags (and of \<^verbatim>\<open>SD_SERIALIZE\<close> on a single node) whenever the parent's group
  list is not \<^verbatim>\<open>NULL\<close>.
\<close>

lemma scast_and_up: "(scast (a AND b :: c_int) :: c_ulong) = scast a AND scast b"
  by (rule bit_word_eqI) (auto simp add: bit_word_scast_iff bit_and_iff dest: bit_imp_le_length)

lemma scast_not_up: "(scast (NOT a :: c_int) :: c_ulong) = NOT (scast a)"
  by (rule bit_word_eqI) (auto simp add: bit_word_scast_iff bit_not_iff dest: bit_imp_le_length)

lemma scast_eq_0_up: "((scast (a :: c_int) :: c_ulong) = 0) = (a = 0)"
proof
  assume "(scast a :: c_ulong) = 0"
  then have "\<And>n. \<not> bit (scast a :: c_ulong) n" by simp
  then have "\<And>n. n < 32 \<Longrightarrow> \<not> bit a n" by (auto simp add: bit_word_scast_iff)
  then show "a = 0" by (intro bit_word_eqI) simp
next
  assume "a = 0" then show "(scast a :: c_ulong) = 0" by simp
qed

lemma parent_pflags_int:
  "parent_pflags K n p =
     scast (if groups p \<noteq> [] then
              (if n = 1 then flags p AND NOT (parent_group_flags K) AND NOT (SD_SERIALIZE K)
               else flags p AND NOT (parent_group_flags K))
            else flags p)"
  by (simp add: parent_pflags_def Let_def scast_and_up and.assoc)

lemma sd_parent_degenerate_flags:
  assumes "sd_degenerate K p = 0" and "span d = span p"
  shows "(sd_parent_degenerate K n d p = 1) =
           ((if groups p \<noteq> [] then
              (if n = 1 then flags p AND NOT (parent_group_flags K) AND NOT (SD_SERIALIZE K)
               else flags p AND NOT (parent_group_flags K))
            else flags p) AND NOT (flags d) = 0)"
proof -
  let ?e = "if groups p \<noteq> [] then
              (if n = 1 then flags p AND NOT (parent_group_flags K) AND NOT (SD_SERIALIZE K)
               else flags p AND NOT (parent_group_flags K))
            else flags p"
  have "NOT (scast (flags d) :: c_ulong) AND scast ?e = scast (NOT (flags d) AND ?e)"
    by (simp only: scast_and_up scast_not_up)
  then have "(NOT (scast (flags d) :: c_ulong) AND parent_pflags K n p = 0) = (?e AND NOT (flags d) = 0)"
    by (simp only: parent_pflags_int scast_eq_0_up and.commute)
  then show ?thesis
    using assms by (simp add: sd_parent_degenerate_def Let_def sched_domain_span_def cpumask_equal_def)
qed

section \<open>Theorems: performance domains\<close>

subsection \<open>What the pieces do to the state\<close>

lemma pd_init_fst_indep: "fst (pd_init env cpu st) = fst (pd_init env cpu st')"
  by (simp add: pd_init_def split: option.splits)

lemma rd_publish_pd: "pd (root_domains (rd_publish rd new st) rd) = new"
  by (simp add: rd_publish_def Let_def)

lemma rd_publish_other:
  "r \<noteq> rd \<Longrightarrow> root_domains (rd_publish rd new st) r = root_domains st r"
  by (simp add: rd_publish_def Let_def)

lemma rd_publish_rcu:
  "rcu_callbacks (rd_publish rd new st) =
     (if pd (root_domains st rd) = [] then rcu_callbacks st
      else rcu_callbacks st @ [pd (root_domains st rd)])"
  by (simp add: rd_publish_def Let_def)

lemma rd_publish_klog: "klog (rd_publish rd new st) = klog st"
  by (simp add: rd_publish_def Let_def)

text \<open>
  The counters of the loop: \<^verbatim>\<open>nr_pd\<close> is the length of the local list and
  \<^verbatim>\<open>nr_cs\<close> the sum of the capacity-state counts of its domains, in C \<^verbatim>\<open>int\<close>
  arithmetic.
\<close>

lemma build_perf_domains_loop_counts:
  "build_perf_domains_loop env m rd cs
       (pds0, of_nat (length pds0),
        sum_list (map (\<lambda>p. em_pd_nr_cap_states (em_pd p)) pds0)) st
     = (Some (pds, nr_pd, nr_cs), st1) \<Longrightarrow>
   nr_pd = of_nat (length pds) \<and>
   nr_cs = sum_list (map (\<lambda>p. em_pd_nr_cap_states (em_pd p)) pds)"
proof (induction cs arbitrary: pds0 st)
  case Nil
  then show ?case by auto
next
  case (Cons i rest)
  show ?case
  proof (cases "find_pd pds0 i \<noteq> None")
    case True
    then show ?thesis using Cons.prems Cons.IH[of pds0 st] by simp
  next
    case False
    then obtain policy tmp st2 where
      pol: "cpufreq_cpu_get env i = Some policy" "governor policy = schedutil_gov"
      and ini: "pd_init env i st = (Some tmp, st2)"
      using Cons.prems by (auto split: option.splits if_splits prod.splits)
    have "build_perf_domains_loop env m rd rest
        (tmp # pds0, of_nat (length (tmp # pds0)),
         sum_list (map (\<lambda>p. em_pd_nr_cap_states (em_pd p)) (tmp # pds0))) st2
        = (Some (pds, nr_pd, nr_cs), st1)"
      using Cons.prems False pol ini by (simp add: add.commute)
    then show ?thesis by (rule Cons.IH)
  qed
qed

text \<open>The loop adds at most one domain for each CPU it visits.\<close>

lemma build_perf_domains_loop_length:
  "build_perf_domains_loop env m rd cs (pds0, n0, c0) st = (Some (pds, nr_pd, nr_cs), st1) \<Longrightarrow>
   length pds \<le> length pds0 + length cs"
proof (induction cs arbitrary: pds0 n0 c0 st)
  case Nil
  then show ?case by auto
next
  case (Cons i rest)
  show ?case
  proof (cases "find_pd pds0 i \<noteq> None")
    case True
    then show ?thesis using Cons.prems Cons.IH[of pds0 n0 c0 st] by simp
  next
    case False
    then obtain policy tmp st2 where
      pol: "cpufreq_cpu_get env i = Some policy" "governor policy = schedutil_gov"
      and ini: "pd_init env i st = (Some tmp, st2)"
      using Cons.prems by (auto split: option.splits if_splits prod.splits)
    have "build_perf_domains_loop env m rd rest
        (tmp # pds0, n0 + 1, c0 + em_pd_nr_cap_states (em_pd tmp)) st2
        = (Some (pds, nr_pd, nr_cs), st1)"
      using Cons.prems False pol ini by simp
    from Cons.IH[OF this] show ?thesis by simp
  qed
qed

text \<open>
  The C \<^verbatim>\<open>int\<close> product is the mathematical one as long as that fits 32 bits.
\<close>

lemma sum_list_word_of_int:
  "(sum_list (map f xs) :: c_int) = word_of_int (sum_list (map (\<lambda>x. sint (f x)) xs))"
  by (induction xs) simp_all

lemma complexity_exact:
  fixes pds :: "perf_domain list" and cpu_map :: cpumask
  defines "M \<equiv> int (length pds) *
       (sum_list (map (\<lambda>p. sint (em_pd_nr_cap_states (em_pd p))) pds) +
        int (cpumask_weight cpu_map))"
  assumes "- (2 ^ 31) \<le> M" "M < 2 ^ 31"
  shows "sint ((of_nat (length pds) :: c_int) *
            (sum_list (map (\<lambda>p. em_pd_nr_cap_states (em_pd p)) pds) +
             of_nat (cpumask_weight cpu_map))) = M"
proof -
  have "(of_nat (length pds) :: c_int) *
            (sum_list (map (\<lambda>p. em_pd_nr_cap_states (em_pd p)) pds) +
             of_nat (cpumask_weight cpu_map))
        = word_of_int M"
    unfolding M_def by (simp add: sum_list_word_of_int[of "\<lambda>p. em_pd_nr_cap_states (em_pd p)"])
  moreover have "sint (word_of_int M :: c_int) = M"
    using assms(2,3) by (simp add: sint_sbintrunc' signed_take_bit_int_eq_self)
  ultimately show ?thesis by simp
qed

text \<open>
  The result of the loop, and with it the list the function publishes, does not depend
  on the state the function starts from: the state only decides what is logged.
\<close>

lemma build_perf_domains_loop_fst_indep:
  "fst (build_perf_domains_loop env m rd cs acc st) =
   fst (build_perf_domains_loop env m rd' cs acc st')"
proof (induction cs arbitrary: acc st st')
  case Nil
  show ?case by simp
next
  case (Cons i rest)
  obtain pds nr_pd nr_cs where acc: "acc = (pds, nr_pd, nr_cs)" by (cases acc) auto
  obtain r st1 where p: "pd_init env i st = (r, st1)" by (cases "pd_init env i st") auto
  obtain r' st1' where p': "pd_init env i st' = (r', st1')" by (cases "pd_init env i st'") auto
  have rr: "r' = r" using pd_init_fst_indep[of env i st st'] p p' by simp
  show ?case
    using Cons.IH[of "(pds, nr_pd, nr_cs)" st st'] p p' rr
      Cons.IH[of "(the r # pds, nr_pd + 1, nr_cs + em_pd_nr_cap_states (em_pd (the r)))" st1 st1']
    by (auto simp add: acc split: option.splits)
qed

lemma build_perf_domains_published_indep:
  "pd (root_domains (build_perf_domains env cpu_map st)
         (cpu_rq_rd env (cpumask_first (nr_cpu_ids env) cpu_map))) =
   pd (root_domains (build_perf_domains env cpu_map st')
         (cpu_rq_rd env (cpumask_first (nr_cpu_ids env) cpu_map)))"
proof -
  let ?rd = "cpu_rq_rd env (cpumask_first (nr_cpu_ids env) cpu_map)"
  obtain r st1 where
    l: "build_perf_domains_loop env cpu_map ?rd (for_each_cpu cpu_map) ([], 0, 0) st = (r, st1)"
    by (cases "build_perf_domains_loop env cpu_map ?rd (for_each_cpu cpu_map) ([], 0, 0) st") auto
  obtain r' st1' where
    l': "build_perf_domains_loop env cpu_map ?rd (for_each_cpu cpu_map) ([], 0, 0) st' = (r', st1')"
    by (cases "build_perf_domains_loop env cpu_map ?rd (for_each_cpu cpu_map) ([], 0, 0) st'") auto
  have rr: "r' = r"
    using build_perf_domains_loop_fst_indep
      [of env cpu_map ?rd "for_each_cpu cpu_map" "([], 0, 0)" st ?rd st'] l l'
    by simp
  show ?thesis
    using l l' rr
    by (auto simp add: build_perf_domains_def build_perf_domains_attach_def Let_def rd_publish_pd
        simp del: build_perf_domains_loop.simps split: option.splits prod.splits)
qed

text \<open>With the marker set, the function is its loop followed by the part after it.\<close>

lemma build_perf_domains_run:
  "sd_asym_cpucapacity env (cpumask_first (nr_cpu_ids env) cpu_map) \<noteq> None \<Longrightarrow>
   build_perf_domains_loop env cpu_map (cpu_rq_rd env (cpumask_first (nr_cpu_ids env) cpu_map))
      (for_each_cpu cpu_map) ([], 0, 0) st = (Some acc, st1) \<Longrightarrow>
   build_perf_domains env cpu_map st =
     build_perf_domains_attach env cpu_map (cpu_rq_rd env (cpumask_first (nr_cpu_ids env) cpu_map))
       (of_nat (cpumask_weight cpu_map)) acc st1"
  by (auto simp add: build_perf_domains_def Let_def simp del: build_perf_domains_loop.simps)

text \<open>The loop at the per-CPU examples.\<close>

lemma example_loop16:
  "build_perf_domains_loop (example_env_per_cpu 8) example_cpu_map16
      (cpu_rq_rd (example_env_per_cpu 8)
         (cpumask_first (nr_cpu_ids (example_env_per_cpu 8)) example_cpu_map16))
      (for_each_cpu example_cpu_map16) ([], 0, 0) (example_state example_old_pds)
   = (Some (example_pds_per_cpu 8 [15, 14, 13, 12, 11, 10, 9, 8, 7, 6, 5, 4, 3, 2, 1, 0], 16, 128),
      example_state example_old_pds)"
  by (simp add: for_each_cpu_def example_cpu_map16_def example_env_per_cpu_def find_pd_def
        cpumask_test_cpu_def perf_domain_span_def pd_init_def
        em_pd_nr_cap_states_def example_pds_per_cpu_def)

lemma example_loop_overflow:
  "build_perf_domains_loop (example_env_per_cpu 0x40000000) {0, 1}
      (cpu_rq_rd (example_env_per_cpu 0x40000000)
         (cpumask_first (nr_cpu_ids (example_env_per_cpu 0x40000000)) {0, 1}))
      (for_each_cpu {0, 1}) ([], 0, 0) (example_state [])
   = (Some (example_pds_per_cpu 0x40000000 [1, 0], 2, 0x80000000), example_state [])"
  by (simp add: for_each_cpu_def example_env_per_cpu_def find_pd_def
        cpumask_test_cpu_def perf_domain_span_def pd_init_def
        em_pd_nr_cap_states_def example_pds_per_cpu_def)

subsection \<open>The claims\<close>

text \<open>
  C1 (as amended). When the asymmetric-capacity marker of the first CPU of the target set
  is unset, \<^verbatim>\<open>build_perf_domains\<close> builds nothing and takes the exit \<^verbatim>\<open>free\<close>: the
  root domain's published list becomes empty, and a previously published non-empty list
  is handed to \<^verbatim>\<open>call_rcu\<close> for destruction. The published list and the queue of
  scheduled destructions are both unchanged exactly when nothing was published before.
\<close>

theorem build_perf_domains_no_asym:
  assumes "sd_asym_cpucapacity env (cpumask_first (nr_cpu_ids env) cpu_map) = None"
  shows "(let rd = cpu_rq_rd env (cpumask_first (nr_cpu_ids env) cpu_map);
              s' = build_perf_domains env cpu_map st
          in pd (root_domains s' rd) = [] \<and>
             rcu_callbacks s' =
               (if pd (root_domains st rd) = [] then rcu_callbacks st
                else rcu_callbacks st @ [pd (root_domains st rd)]) \<and>
             ((pd (root_domains s' rd) = pd (root_domains st rd) \<and>
               rcu_callbacks s' = rcu_callbacks st) = (pd (root_domains st rd) = [])))"
  using assms
  by (auto simp add: build_perf_domains_def Let_def rd_publish_pd rd_publish_rcu printk_def)

theorem build_perf_domains_no_asym_witness:
  "sd_asym_cpucapacity (example_env False)
      (cpumask_first (nr_cpu_ids (example_env False)) example_cpu_map) = None \<and>
   pd (root_domains (build_perf_domains (example_env False) example_cpu_map
         (example_state example_old_pds)) 0) = [] \<and>
   rcu_callbacks (build_perf_domains (example_env False) example_cpu_map
         (example_state example_old_pds)) = [example_old_pds] \<and>
   build_perf_domains (example_env False) example_cpu_map (example_state [])
     = example_state []"
proof -
  have h: "sd_asym_cpucapacity (example_env False)
      (cpumask_first (nr_cpu_ids (example_env False)) example_cpu_map) = None"
    by (simp add: example_env_def)
  have rd: "cpu_rq_rd (example_env False)
      (cpumask_first (nr_cpu_ids (example_env False)) example_cpu_map) = 0"
    by (simp add: example_env_def)
  have e: "build_perf_domains (example_env False) example_cpu_map (example_state [])
     = example_state []"
    by (simp add: build_perf_domains_def example_env_def rd_publish_def sched_debug_def
          example_state_def Let_def fun_eq_iff)
  show ?thesis
    using build_perf_domains_no_asym[OF h, of "example_state example_old_pds"] h e
    by (simp add: Let_def rd example_state_def example_old_pds_def)
qed

text \<open>
  The claim as first stated fails where a list is published: with the marker unset and a
  one-domain list published, the call leaves the published list empty and the old list
  scheduled for destruction.
\<close>

theorem build_perf_domains_no_asym_counterexample:
  "sd_asym_cpucapacity (example_env False)
      (cpumask_first (nr_cpu_ids (example_env False)) example_cpu_map) = None \<and>
   pd (root_domains (example_state example_old_pds)
        (cpu_rq_rd (example_env False)
           (cpumask_first (nr_cpu_ids (example_env False)) example_cpu_map)))
     = example_old_pds \<and>
   pd (root_domains (build_perf_domains (example_env False) example_cpu_map
         (example_state example_old_pds))
        (cpu_rq_rd (example_env False)
           (cpumask_first (nr_cpu_ids (example_env False)) example_cpu_map))) = [] \<and>
   example_old_pds \<noteq> [] \<and>
   rcu_callbacks (example_state example_old_pds) = [] \<and>
   rcu_callbacks (build_perf_domains (example_env False) example_cpu_map
         (example_state example_old_pds)) = [example_old_pds]"
  by (simp add: build_perf_domains_def example_env_def rd_publish_def sched_debug_def
          example_state_def Let_def example_old_pds_def)

text \<open>
  C2 (as amended). When the marker is set and the loop runs through the whole target set,
  leaving the local list \<open>pds\<close> with the counters \<^verbatim>\<open>nr_pd\<close> (its length, at most the
  number of CPUs of the target set) and \<^verbatim>\<open>nr_cs\<close> (the sum of its capacity-state
  counts), the function publishes \<open>pds\<close> exactly when the value \<open>c\<close> of
  \<^verbatim>\<open>nr_pd * (nr_cs + nr_cpus)\<close>, computed in 32-bit C \<^verbatim>\<open>int\<close> arithmetic, is at most
  2048; above 2048 it logs the complexity warning and publishes the empty list. Whenever
  the product \<open>M\<close> of the numbers themselves fits 32 bits, \<open>c\<close> is \<open>M\<close>, and the
  list is published exactly when \<open>M\<close> is at most 2048.
\<close>

theorem build_perf_domains_complexity_gate:
  assumes marker: "sd_asym_cpucapacity env (cpumask_first (nr_cpu_ids env) cpu_map) \<noteq> None"
    and loop: "build_perf_domains_loop env cpu_map
                 (cpu_rq_rd env (cpumask_first (nr_cpu_ids env) cpu_map))
                 (for_each_cpu cpu_map) ([], 0, 0) st = (Some (pds, nr_pd, nr_cs), st1)"
  shows "nr_pd = of_nat (length pds) \<and>
     nr_cs = sum_list (map (\<lambda>p. em_pd_nr_cap_states (em_pd p)) pds) \<and>
     length pds \<le> cpumask_weight cpu_map \<and>
     (let s' = build_perf_domains env cpu_map st;
          rd = cpu_rq_rd env (cpumask_first (nr_cpu_ids env) cpu_map);
          c = sint (nr_pd * (nr_cs + of_nat (cpumask_weight cpu_map)));
          M = int (length pds) *
                (sum_list (map (\<lambda>p. sint (em_pd_nr_cap_states (em_pd p))) pds) +
                 int (cpumask_weight cpu_map))
      in (pd (root_domains s' rd) = pds) = (c \<le> 2048) \<and>
         (c \<le> 2048 \<longrightarrow> klog s' = klog (perf_domain_debug env cpu_map pds st1)) \<and>
         (2048 < c \<longrightarrow> pd (root_domains s' rd) = [] \<and>
                          klog s' = klog st1 @ [Warn_complexity_too_high cpu_map]) \<and>
         (- (2 ^ 31) \<le> M \<and> M < 2 ^ 31 \<longrightarrow>
            c = M \<and>
            (pd (root_domains s' rd) = pds) = (M \<le> 2048) \<and>
            (2048 < M \<longrightarrow> pd (root_domains s' rd) = [] \<and>
                             klog s' = klog st1 @ [Warn_complexity_too_high cpu_map])))"
proof -
  let ?M = "int (length pds) *
                (sum_list (map (\<lambda>p. sint (em_pd_nr_cap_states (em_pd p))) pds) +
                 int (cpumask_weight cpu_map))"
  let ?c = "sint (nr_pd * (nr_cs + of_nat (cpumask_weight cpu_map)))"
  have cnt: "nr_pd = of_nat (length pds) \<and>
     nr_cs = sum_list (map (\<lambda>p. em_pd_nr_cap_states (em_pd p)) pds)"
    using build_perf_domains_loop_counts
      [of env cpu_map _ "for_each_cpu cpu_map" "[]" st pds nr_pd nr_cs st1] loop
    by simp
  have len: "length pds \<le> cpumask_weight cpu_map"
    using build_perf_domains_loop_length[OF loop]
    by (simp add: for_each_cpu_def cpumask_weight_def)
  have ne: "2048 < ?c \<Longrightarrow> pds \<noteq> []"
    using cnt by auto
  have ex: "- (2 ^ 31) \<le> ?M \<and> ?M < 2 ^ 31 \<Longrightarrow> ?c = ?M"
    using complexity_exact[of pds cpu_map] cnt by simp
  have gate: "(pd (root_domains (build_perf_domains env cpu_map st)
                   (cpu_rq_rd env (cpumask_first (nr_cpu_ids env) cpu_map))) = pds) = (?c \<le> 2048)"
    and ok: "?c \<le> 2048 \<Longrightarrow>
          klog (build_perf_domains env cpu_map st) = klog (perf_domain_debug env cpu_map pds st1)"
    and abort: "2048 < ?c \<Longrightarrow>
          pd (root_domains (build_perf_domains env cpu_map st)
                   (cpu_rq_rd env (cpumask_first (nr_cpu_ids env) cpu_map))) = [] \<and>
          klog (build_perf_domains env cpu_map st) = klog st1 @ [Warn_complexity_too_high cpu_map]"
    using marker loop ne
    by (auto simp add: build_perf_domains_def build_perf_domains_attach_def Let_def
        rd_publish_pd rd_publish_klog EM_MAX_COMPLEXITY_def printk_def
        simp del: build_perf_domains_loop.simps)
  have rng: "- (2 ^ 31) \<le> ?M \<and> ?M < 2 ^ 31 \<longrightarrow>
            ?c = ?M \<and>
            (pd (root_domains (build_perf_domains env cpu_map st)
                   (cpu_rq_rd env (cpumask_first (nr_cpu_ids env) cpu_map))) = pds) = (?M \<le> 2048) \<and>
            (2048 < ?M \<longrightarrow>
               pd (root_domains (build_perf_domains env cpu_map st)
                   (cpu_rq_rd env (cpumask_first (nr_cpu_ids env) cpu_map))) = [] \<and>
               klog (build_perf_domains env cpu_map st)
                 = klog st1 @ [Warn_complexity_too_high cpu_map])"
  proof
    assume r: "- (2 ^ 31) \<le> ?M \<and> ?M < 2 ^ 31"
    have e: "?c = ?M" using ex[OF r] .
    note g' = gate[unfolded e] and a' = abort[unfolded e]
    show "?c = ?M \<and>
            (pd (root_domains (build_perf_domains env cpu_map st)
                   (cpu_rq_rd env (cpumask_first (nr_cpu_ids env) cpu_map))) = pds) = (?M \<le> 2048) \<and>
            (2048 < ?M \<longrightarrow>
               pd (root_domains (build_perf_domains env cpu_map st)
                   (cpu_rq_rd env (cpumask_first (nr_cpu_ids env) cpu_map))) = [] \<and>
               klog (build_perf_domains env cpu_map st)
                 = klog st1 @ [Warn_complexity_too_high cpu_map])"
      using e g' a' by blast
  qed
  show ?thesis
    unfolding Let_def using cnt len gate ok abort rng by blast
qed

text \<open>
  Two runs of the function. Five domains of ten capacity states each on eight CPUs give
  5 * (50 + 8) = 290 and the list is published. Sixteen CPUs with a domain of eight
  capacity states each give 16 * (128 + 16) = 2304, and the function logs the warning and
  publishes the empty list.
\<close>

theorem build_perf_domains_complexity_gate_witness:
  "sd_asym_cpucapacity (example_env True)
      (cpumask_first (nr_cpu_ids (example_env True)) example_cpu_map) \<noteq> None \<and>
   build_perf_domains_loop (example_env True) example_cpu_map
      (cpu_rq_rd (example_env True)
         (cpumask_first (nr_cpu_ids (example_env True)) example_cpu_map))
      (for_each_cpu example_cpu_map) ([], 0, 0) (example_state example_old_pds)
     = (Some (example_pds, 5, 50), example_state example_old_pds) \<and>
   length example_pds = 5 \<and> cpumask_weight example_cpu_map = 8 \<and>
   int (length example_pds) *
     (sum_list (map (\<lambda>p. sint (em_pd_nr_cap_states (em_pd p))) example_pds) +
      int (cpumask_weight example_cpu_map)) = 290 \<and>
   pd (root_domains (build_perf_domains (example_env True) example_cpu_map
         (example_state example_old_pds)) 0) = example_pds \<and>
   sd_asym_cpucapacity (example_env_per_cpu 8)
      (cpumask_first (nr_cpu_ids (example_env_per_cpu 8)) example_cpu_map16) \<noteq> None \<and>
   build_perf_domains_loop (example_env_per_cpu 8) example_cpu_map16
      (cpu_rq_rd (example_env_per_cpu 8)
         (cpumask_first (nr_cpu_ids (example_env_per_cpu 8)) example_cpu_map16))
      (for_each_cpu example_cpu_map16) ([], 0, 0) (example_state example_old_pds)
     = (Some (example_pds_per_cpu 8 [15, 14, 13, 12, 11, 10, 9, 8, 7, 6, 5, 4, 3, 2, 1, 0],
              16, 128),
        example_state example_old_pds) \<and>
   cpumask_weight example_cpu_map16 = 16 \<and>
   int (length (example_pds_per_cpu 8 [15, 14, 13, 12, 11, 10, 9, 8, 7, 6, 5, 4, 3, 2, 1, 0])) *
     (sum_list (map (\<lambda>p. sint (em_pd_nr_cap_states (em_pd p)))
        (example_pds_per_cpu 8 [15, 14, 13, 12, 11, 10, 9, 8, 7, 6, 5, 4, 3, 2, 1, 0])) +
      int (cpumask_weight example_cpu_map16)) = 2304 \<and>
   pd (root_domains (build_perf_domains (example_env_per_cpu 8) example_cpu_map16
         (example_state example_old_pds)) 0) = [] \<and>
   klog (build_perf_domains (example_env_per_cpu 8) example_cpu_map16
         (example_state example_old_pds)) = [Warn_complexity_too_high example_cpu_map16]"
proof -
  let ?pds16 = "example_pds_per_cpu 8 [15, 14, 13, 12, 11, 10, 9, 8, 7, 6, 5, 4, 3, 2, 1, 0]"
  have h1: "sd_asym_cpucapacity (example_env True)
      (cpumask_first (nr_cpu_ids (example_env True)) example_cpu_map) \<noteq> None"
    by (simp add: example_env_def)
  have h2: "build_perf_domains_loop (example_env True) example_cpu_map
      (cpu_rq_rd (example_env True)
         (cpumask_first (nr_cpu_ids (example_env True)) example_cpu_map))
      (for_each_cpu example_cpu_map) ([], 0, 0) (example_state example_old_pds)
     = (Some (example_pds, 5, 50), example_state example_old_pds)"
    by (simp add: for_each_cpu_def example_cpu_map_def example_env_def example_em_def
        find_pd_def cpumask_test_cpu_def perf_domain_span_def pd_init_def
        em_pd_nr_cap_states_def example_pds_def)
  have w: "cpumask_weight example_cpu_map = 8"
    by (simp add: cpumask_weight_def example_cpu_map_def)
  have l: "length example_pds = 5" by (simp add: example_pds_def)
  have rd: "cpu_rq_rd (example_env True)
      (cpumask_first (nr_cpu_ids (example_env True)) example_cpu_map) = 0"
    by (simp add: example_env_def)
  have m: "int (length example_pds) *
     (sum_list (map (\<lambda>p. sint (em_pd_nr_cap_states (em_pd p))) example_pds) +
      int (cpumask_weight example_cpu_map)) = 290"
    by (simp add: w) (simp add: example_pds_def em_pd_nr_cap_states_def)
  have g: "pd (root_domains (build_perf_domains (example_env True) example_cpu_map
         (example_state example_old_pds)) 0) = example_pds"
    using build_perf_domains_complexity_gate[OF h1 h2] m unfolding Let_def rd by simp
  have k1: "sd_asym_cpucapacity (example_env_per_cpu 8)
      (cpumask_first (nr_cpu_ids (example_env_per_cpu 8)) example_cpu_map16) \<noteq> None"
    by (simp add: example_env_per_cpu_def)
  have w16: "cpumask_weight example_cpu_map16 = 16"
    by (simp add: cpumask_weight_def example_cpu_map16_def)
  have rd16: "cpu_rq_rd (example_env_per_cpu 8)
      (cpumask_first (nr_cpu_ids (example_env_per_cpu 8)) example_cpu_map16) = 0"
    by (simp add: example_env_per_cpu_def)
  have m16: "int (length ?pds16) *
     (sum_list (map (\<lambda>p. sint (em_pd_nr_cap_states (em_pd p))) ?pds16) +
      int (cpumask_weight example_cpu_map16)) = 2304"
    by (simp add: w16) (simp add: example_pds_per_cpu_def em_pd_nr_cap_states_def)
  have g16: "pd (root_domains (build_perf_domains (example_env_per_cpu 8) example_cpu_map16
         (example_state example_old_pds)) 0) = [] \<and>
     klog (build_perf_domains (example_env_per_cpu 8) example_cpu_map16
         (example_state example_old_pds)) = [Warn_complexity_too_high example_cpu_map16]"
    using build_perf_domains_complexity_gate[OF k1 example_loop16] m16 unfolding Let_def rd16
    by (simp add: example_state_def)
  show ?thesis
    using h1 h2 l w m g k1 example_loop16 w16 m16 g16 by blast
qed

text \<open>
  The unamended statement, on the product of the numbers themselves, fails where the C
  arithmetic wraps: two CPUs with a domain of 0x40000000 capacity states each give the
  product 2 * (2147483648 + 2) = 4294967300, above 2048, while the 32-bit value is 4 and
  the list is published.
\<close>

theorem build_perf_domains_complexity_gate_counterexample:
  "sd_asym_cpucapacity (example_env_per_cpu 0x40000000)
      (cpumask_first (nr_cpu_ids (example_env_per_cpu 0x40000000)) {0, 1}) \<noteq> None \<and>
   build_perf_domains_loop (example_env_per_cpu 0x40000000) {0, 1}
      (cpu_rq_rd (example_env_per_cpu 0x40000000)
         (cpumask_first (nr_cpu_ids (example_env_per_cpu 0x40000000)) {0, 1}))
      (for_each_cpu {0, 1}) ([], 0, 0) (example_state [])
     = (Some (example_pds_per_cpu 0x40000000 [1, 0], 2, 0x80000000), example_state []) \<and>
   int (length (example_pds_per_cpu 0x40000000 [1, 0])) *
     (sum_list (map (\<lambda>p. sint (em_pd_nr_cap_states (em_pd p)))
                 (example_pds_per_cpu 0x40000000 [1, 0])) +
      int (cpumask_weight {0, 1})) = 4294967300 \<and>
   (2048 :: int) < 4294967300 \<and>
   example_pds_per_cpu 0x40000000 [1, 0] \<noteq> [] \<and>
   pd (root_domains (build_perf_domains (example_env_per_cpu 0x40000000) {0, 1}
         (example_state [])) 0) = example_pds_per_cpu 0x40000000 [1, 0]"
proof -
  let ?env = "example_env_per_cpu 0x40000000"
  have h1: "sd_asym_cpucapacity ?env (cpumask_first (nr_cpu_ids ?env) {0, 1}) \<noteq> None"
    by (simp add: example_env_per_cpu_def)
  have rd: "cpu_rq_rd ?env (cpumask_first (nr_cpu_ids ?env) {0, 1}) = 0"
    by (simp add: example_env_per_cpu_def)
  have m: "int (length (example_pds_per_cpu 0x40000000 [1, 0])) *
     (sum_list (map (\<lambda>p. sint (em_pd_nr_cap_states (em_pd p)))
                 (example_pds_per_cpu 0x40000000 [1, 0])) +
      int (cpumask_weight {0, 1})) = 4294967300"
    by (simp add: example_pds_per_cpu_def em_pd_nr_cap_states_def cpumask_weight_def)
  have ne: "example_pds_per_cpu 0x40000000 [1, 0] \<noteq> []"
    by (simp add: example_pds_per_cpu_def)
  have w: "(of_nat (cpumask_weight {0, 1::nat}) :: c_int) = 2"
    by (simp add: cpumask_weight_def)
  have p: "pd (root_domains (build_perf_domains ?env {0, 1} (example_state [])) 0)
             = example_pds_per_cpu 0x40000000 [1, 0]"
    unfolding build_perf_domains_run[OF h1 example_loop_overflow] rd w
    by (simp add: build_perf_domains_attach_def EM_MAX_COMPLEXITY_def rd_publish_pd)
  show ?thesis using h1 example_loop_overflow m ne p by simp
qed

text \<open>
  C9. Running \<^verbatim>\<open>build_perf_domains\<close> a second time on the same target set, with the
  same marker, energy-model, governor and allocation answers, leaves the published list
  of the root domain as the first run left it: the same list, hence the same number of
  domains and the same spans.
\<close>

theorem build_perf_domains_idempotent:
  "(let rd = cpu_rq_rd env (cpumask_first (nr_cpu_ids env) cpu_map);
        once = build_perf_domains env cpu_map st;
        twice = build_perf_domains env cpu_map once
    in pd (root_domains twice rd) = pd (root_domains once rd) \<and>
       length (pd (root_domains twice rd)) = length (pd (root_domains once rd)) \<and>
       map perf_domain_span (pd (root_domains twice rd)) =
         map perf_domain_span (pd (root_domains once rd)))"
  using build_perf_domains_published_indep[of env cpu_map "build_perf_domains env cpu_map st" st]
  by (simp add: Let_def)

theorem build_perf_domains_idempotent_witness:
  "pd (root_domains (build_perf_domains (example_env True) example_cpu_map
         (build_perf_domains (example_env True) example_cpu_map
            (example_state example_old_pds))) 0)
     = example_pds \<and>
   pd (root_domains (build_perf_domains (example_env True) example_cpu_map
         (example_state example_old_pds)) 0) = example_pds"
proof -
  have once: "pd (root_domains (build_perf_domains (example_env True) example_cpu_map
         (example_state example_old_pds)) 0) = example_pds"
    by (simp add: build_perf_domains_def for_each_cpu_def example_cpu_map_def example_env_def
        example_em_def find_pd_def cpumask_test_cpu_def perf_domain_span_def pd_init_def
        em_pd_nr_cap_states_def example_pds_def cpumask_first_def cpumask_weight_def
        build_perf_domains_attach_def EM_MAX_COMPLEXITY_def rd_publish_def
        perf_domain_debug_def sched_debug_def example_state_def example_old_pds_def Let_def)
  have rd: "cpu_rq_rd (example_env True)
      (cpumask_first (nr_cpu_ids (example_env True)) example_cpu_map) = 0"
    by (simp add: example_env_def)
  show ?thesis
    using build_perf_domains_idempotent
      [of "example_env True" example_cpu_map "example_state example_old_pds"] once
    by (simp add: Let_def rd)
qed

section \<open>Theorems: the topology table\<close>

subsection \<open>Reset\<close>

lemma fold_reset_entry_notin:
  "c \<notin> set cs \<Longrightarrow> fold reset_entry cs tbl c = tbl c"
  by (induction cs arbitrary: tbl) (auto simp: reset_entry_def)

lemma reset_entry_same: "reset_entry c tbl c = flat_entry c"
  by (cases "tbl c")
     (simp add: reset_entry_def flat_entry_def cpumask_set_cpu_def cpumask_clear_def)

lemma fold_reset_entry_in:
  "c \<in> set cs \<Longrightarrow> fold reset_entry cs tbl c = flat_entry c"
proof (induction cs arbitrary: tbl)
  case Nil
  then show ?case by simp
next
  case (Cons x xs)
  show ?case
  proof (cases "c \<in> set xs")
    case True
    then show ?thesis using Cons.IH by simp
  next
    case False
    then have cx: "c = x" using Cons.prems by simp
    have "fold reset_entry (x # xs) tbl c = fold reset_entry xs (reset_entry x tbl) c" by simp
    also have "\<dots> = reset_entry x tbl c" using False by (rule fold_reset_entry_notin)
    finally show ?thesis using cx by (simp only: reset_entry_same)
  qed
qed

lemma reset_cpu_topology_entry:
  "c \<in> set (for_each_possible_cpu env) \<Longrightarrow>
   cpu_topology (reset_cpu_topology env st) c = flat_entry c"
  by (simp add: reset_cpu_topology_def fold_reset_entry_in)

lemma reset_cpu_topology_efficiency:
  "cpu_efficiency (reset_cpu_topology env st) = cpu_efficiency st"
  by (simp add: reset_cpu_topology_def)

subsection \<open>Sibling masks\<close>

text \<open>What one round of the loop adds to the masks, and that it leaves the ids alone.\<close>

lemma core_step_mem:
  "(y \<in> core_sibling (update_siblings_step cpuid cpu tbl x)) =
     (y \<in> core_sibling (tbl x) \<or>
      (cluster_id (tbl cpuid) = cluster_id (tbl cpu) \<and>
       ((x = cpu \<and> y = cpuid) \<or> (x = cpuid \<and> y = cpu))))"
  by (auto simp add: update_siblings_step_def set_core_sibling_def set_thread_sibling_def
      cpumask_set_cpu_def Let_def)

lemma thread_step_mem:
  "(y \<in> thread_sibling (update_siblings_step cpuid cpu tbl x)) =
     (y \<in> thread_sibling (tbl x) \<or>
      (cluster_id (tbl cpuid) = cluster_id (tbl cpu) \<and>
       core_id (tbl cpuid) = core_id (tbl cpu) \<and>
       ((x = cpu \<and> y = cpuid) \<or> (x = cpuid \<and> y = cpu))))"
  by (auto simp add: update_siblings_step_def set_core_sibling_def set_thread_sibling_def
      cpumask_set_cpu_def Let_def)





lemma fold_update_siblings_masks_efficiency:
  "cpu_efficiency (fold (update_siblings_masks env) cs st) = cpu_efficiency st"
  by (induction cs arbitrary: st) (simp_all add: update_siblings_masks_def)

text \<open>
  The reset establishes the three properties, and every round of
  \<^verbatim>\<open>update_siblings_masks\<close> keeps them, whatever the cluster and core ids are.
\<close>

lemma sib_inv_step:
  assumes inv: "sib_inv P tbl" and "cpuid \<in> P" and "cpu \<in> P"
  shows "sib_inv P (update_siblings_step cpuid cpu tbl)"
proof -
  have r: "\<And>c. c \<in> P \<Longrightarrow> c \<in> core_sibling (tbl c)"
    and s: "\<And>c1 c2. c1 \<in> P \<Longrightarrow> c2 \<in> P \<Longrightarrow> c2 \<in> core_sibling (tbl c1) \<Longrightarrow>
              c1 \<in> core_sibling (tbl c2)"
    and t: "\<And>c y. c \<in> P \<Longrightarrow> y \<in> thread_sibling (tbl c) \<Longrightarrow> y \<in> core_sibling (tbl c)"
    using inv unfolding sib_inv_def by blast+
  have r': "\<forall>c\<in>P. c \<in> core_sibling (update_siblings_step cpuid cpu tbl c)"
    using r by (simp add: core_step_mem)
  have s': "\<forall>c1\<in>P. \<forall>c2\<in>P. c2 \<in> core_sibling (update_siblings_step cpuid cpu tbl c1) \<longrightarrow>
                c1 \<in> core_sibling (update_siblings_step cpuid cpu tbl c2)"
    unfolding core_step_mem using s by blast
  have t': "\<forall>c\<in>P. thread_sibling (update_siblings_step cpuid cpu tbl c)
                \<subseteq> core_sibling (update_siblings_step cpuid cpu tbl c)"
    unfolding subset_iff core_step_mem thread_step_mem using t by blast
  show ?thesis unfolding sib_inv_def using r' s' t' by blast
qed

lemma sib_inv_fold_step:
  "sib_inv P tbl \<Longrightarrow> cpuid \<in> P \<Longrightarrow> set cs \<subseteq> P \<Longrightarrow>
   sib_inv P (fold (update_siblings_step cpuid) cs tbl)"
  by (induction cs arbitrary: tbl) (auto intro: sib_inv_step)

lemma sib_inv_masks:
  "sib_inv P (cpu_topology st) \<Longrightarrow> cpuid \<in> P \<Longrightarrow> set (for_each_possible_cpu env) \<subseteq> P \<Longrightarrow>
   sib_inv P (cpu_topology (update_siblings_masks env cpuid st))"
  by (simp add: update_siblings_masks_def sib_inv_fold_step)

lemma sib_inv_fold_masks:
  "sib_inv P (cpu_topology st) \<Longrightarrow> set cs \<subseteq> P \<Longrightarrow> set (for_each_possible_cpu env) \<subseteq> P \<Longrightarrow>
   sib_inv P (cpu_topology (fold (update_siblings_masks env) cs st))"
  by (induction cs arbitrary: st) (auto intro: sib_inv_masks)

lemma sib_inv_reset:
  "sib_inv (set (for_each_possible_cpu env)) (cpu_topology (reset_cpu_topology env st))"
  by (simp add: sib_inv_def reset_cpu_topology_entry flat_entry_def)

subsection \<open>The examples, evaluated\<close>

lemma example_possible: "for_each_possible_cpu (example_dt_env cn) = [0, 1, 2]"
  by (simp add: for_each_possible_cpu_def for_each_cpu_def example_dt_env_def)

lemma example_get_cpu:
  "get_cpu_for_node (example_dt_env cn) (Device_node (Some h) cs) =
     (if h = 100 then 0 else if h = 101 then 1 else if h = 102 then 2 else - 1)"
  by (simp add: get_cpu_for_node_def example_possible) (simp add: example_dt_env_def)

lemma get_cpu_for_node_no_phandle: "get_cpu_for_node env (Device_node None cs) = - 1"
  by (simp add: get_cpu_for_node_def)

lemma example_of_find_cpus: "of_find_cpus (example_dt_env cn) = cn"
  by (simp add: example_dt_env_def)

lemma example_read_efficiency:
  "read_efficiency (example_dt_env cn) cpu =
     (if cpu = 0 then Some 2048 else if cpu = 1 then Some 1024 else None)"
  by (simp add: read_efficiency_def example_dt_env_def)

lemma example_reset:
  "reset_cpu_topology (example_dt_env cn) example_topo_state =
     \<lparr>cpu_topology = (\<lambda>cpu. if cpu < 3 then flat_entry cpu
                            else \<lparr>thread_id = 0, core_id = 0, cluster_id = 0,
                                  thread_sibling = {}, core_sibling = {}\<rparr>),
      cpu_efficiency = (\<lambda>cpu. 1024), cluster_id_static = 0\<rparr>"
  by (auto simp add: reset_cpu_topology_def example_possible example_topo_state_def
      reset_entry_def flat_entry_def cpumask_set_cpu_def cpumask_clear_def fun_eq_iff)




lemma example_parse_missing:
  "parse_dt_topology (example_dt_env (Some (Cpus_node (Some example_map_missing))))
     (reset_cpu_topology (example_dt_env (Some (Cpus_node (Some example_map_missing))))
        example_topo_state)
   = (Some Cpu_not_in_map,
      \<lparr>cpu_topology =
         (\<lambda>cpu. if cpu = 0 then \<lparr>thread_id = - 1, core_id = 0, cluster_id = 0,
                                  thread_sibling = {0}, core_sibling = {0}\<rparr>
                else if cpu = 1 then \<lparr>thread_id = - 1, core_id = 1, cluster_id = 0,
                                       thread_sibling = {1}, core_sibling = {1}\<rparr>
                else if cpu = 2 then flat_entry 2
                else \<lparr>thread_id = 0, core_id = 0, cluster_id = 0,
                      thread_sibling = {}, core_sibling = {}\<rparr>),
       cpu_efficiency = (\<lambda>cpu. if cpu = 0 then 2048 else 1024),
       cluster_id_static = 1\<rparr>)"
  by (simp add: example_reset parse_dt_topology_def example_map_missing_def
      of_get_child_by_name_def
      parse_core_def example_get_cpu Let_def example_possible check_cpu_def
      example_read_efficiency flat_entry_def example_of_find_cpus get_cpu_for_node_no_phandle)
     (auto simp add: fun_eq_iff)

text \<open>
  C6. After \<^verbatim>\<open>reset_cpu_topology\<close> followed by \<^verbatim>\<open>update_siblings_masks\<close> for every
  possible CPU, for all possible CPUs \<open>c\<close>, \<open>c1\<close>, \<open>c2\<close>: \<open>c\<close> is in its own
  \<^verbatim>\<open>core_sibling\<close>, \<open>c2\<close> is in the \<^verbatim>\<open>core_sibling\<close> of \<open>c1\<close> iff \<open>c1\<close> is in
  that of \<open>c2\<close>, and the \<^verbatim>\<open>thread_sibling\<close> of \<open>c\<close> is contained in its
  \<^verbatim>\<open>core_sibling\<close>.
\<close>

theorem siblings_reflexive_symmetric:
  "c \<in> set (for_each_possible_cpu env) \<Longrightarrow> c1 \<in> set (for_each_possible_cpu env) \<Longrightarrow>
   c2 \<in> set (for_each_possible_cpu env) \<Longrightarrow>
   (let st' = fold (update_siblings_masks env) (for_each_possible_cpu env)
                (reset_cpu_topology env st)
    in c \<in> core_sibling (cpu_topology st' c) \<and>
       (c2 \<in> core_sibling (cpu_topology st' c1)) = (c1 \<in> core_sibling (cpu_topology st' c2)) \<and>
       thread_sibling (cpu_topology st' c) \<subseteq> core_sibling (cpu_topology st' c))"
proof -
  let ?P = "set (for_each_possible_cpu env)"
  assume m: "c \<in> ?P" "c1 \<in> ?P" "c2 \<in> ?P"
  have "sib_inv ?P (cpu_topology (fold (update_siblings_masks env) (for_each_possible_cpu env)
           (reset_cpu_topology env st)))"
    by (rule sib_inv_fold_masks[OF sib_inv_reset]) simp_all
  then show ?thesis using m unfolding sib_inv_def Let_def by blast
qed

theorem siblings_reflexive_symmetric_witness:
  "0 \<in> set (for_each_possible_cpu (example_dt_env None)) \<and>
   1 \<in> set (for_each_possible_cpu (example_dt_env None)) \<and>
   2 \<in> set (for_each_possible_cpu (example_dt_env None)) \<and>
   0 \<in> core_sibling (cpu_topology
          (fold (update_siblings_masks (example_dt_env None))
             (for_each_possible_cpu (example_dt_env None))
             (reset_cpu_topology (example_dt_env None) example_topo_state)) 0) \<and>
   (2 \<in> core_sibling (cpu_topology
          (fold (update_siblings_masks (example_dt_env None))
             (for_each_possible_cpu (example_dt_env None))
             (reset_cpu_topology (example_dt_env None) example_topo_state)) 1)) =
   (1 \<in> core_sibling (cpu_topology
          (fold (update_siblings_masks (example_dt_env None))
             (for_each_possible_cpu (example_dt_env None))
             (reset_cpu_topology (example_dt_env None) example_topo_state)) 2)) \<and>
   thread_sibling (cpu_topology
          (fold (update_siblings_masks (example_dt_env None))
             (for_each_possible_cpu (example_dt_env None))
             (reset_cpu_topology (example_dt_env None) example_topo_state)) 0)
     \<subseteq> core_sibling (cpu_topology
          (fold (update_siblings_masks (example_dt_env None))
             (for_each_possible_cpu (example_dt_env None))
             (reset_cpu_topology (example_dt_env None) example_topo_state)) 0)"
proof -
  have h0: "0 \<in> set (for_each_possible_cpu (example_dt_env None))"
    and h1: "1 \<in> set (for_each_possible_cpu (example_dt_env None))"
    and h2: "2 \<in> set (for_each_possible_cpu (example_dt_env None))"
    by (simp_all add: example_possible)
  show ?thesis
    using siblings_reflexive_symmetric[OF h0 h1 h2, of example_topo_state] h0 h1 h2
    unfolding Let_def by blast
qed

section \<open>Theorems: discovery and initialisation\<close>

subsection \<open>The scan of the threads of a core\<close>





subsection \<open>How an error leaves the traversal\<close>












subsection \<open>The check over the possible CPUs\<close>

lemma check_cpu_table: "cpu_topology (snd (check_cpu env cpu rs)) = cpu_topology (snd rs)"
  by (cases rs) (simp add: check_cpu_def Let_def split: option.splits)

lemma fold_check_cpu_table:
  "cpu_topology (snd (fold (check_cpu env) cs rs)) = cpu_topology (snd rs)"
  by (induction cs arbitrary: rs) (simp_all add: check_cpu_table)






text \<open>
  C10. \<^verbatim>\<open>reset_cpu_topology\<close> leaves the per-CPU efficiency as it is: for every CPU,
  \<^verbatim>\<open>arch_get_cpu_efficiency\<close> returns after the reset what it returned before. So when
  \<^verbatim>\<open>parse_dt_topology\<close> fails, the efficiency values it stored before failing are what
  \<^verbatim>\<open>arch_get_cpu_efficiency\<close> returns after \<^verbatim>\<open>init_cpu_topology\<close>.
\<close>

theorem reset_keeps_efficiency:
  "arch_get_cpu_efficiency (reset_cpu_topology env st) cpu = arch_get_cpu_efficiency st cpu \<and>
   (parse_dt_topology env (reset_cpu_topology env st) = (Some e, st1) \<longrightarrow>
      arch_get_cpu_efficiency (init_cpu_topology env st) cpu = arch_get_cpu_efficiency st1 cpu)"
  by (simp add: arch_get_cpu_efficiency_def reset_cpu_topology_efficiency init_cpu_topology_def)

text \<open>
  The instance: with CPU 2 missing from the map, discovery fails after it has stored the
  efficiency 2048 of CPU 0; after the initialisation the entry of CPU 0 is flat again and
  its efficiency is still 2048 (it was 1024 before).
\<close>

theorem reset_keeps_efficiency_witness:
  "fst (parse_dt_topology (example_dt_env (Some (Cpus_node (Some example_map_missing))))
     (reset_cpu_topology (example_dt_env (Some (Cpus_node (Some example_map_missing))))
        example_topo_state)) = Some Cpu_not_in_map \<and>
   arch_get_cpu_efficiency example_topo_state 0 = 1024 \<and>
   arch_get_cpu_efficiency
     (snd (parse_dt_topology (example_dt_env (Some (Cpus_node (Some example_map_missing))))
        (reset_cpu_topology (example_dt_env (Some (Cpus_node (Some example_map_missing))))
           example_topo_state))) 0 = 2048 \<and>
   arch_get_cpu_efficiency
     (init_cpu_topology (example_dt_env (Some (Cpus_node (Some example_map_missing))))
        example_topo_state) 0 = 2048 \<and>
   cpu_topology
     (init_cpu_topology (example_dt_env (Some (Cpus_node (Some example_map_missing))))
        example_topo_state) 0 = flat_entry 0"
proof -
  let ?M = "example_dt_env (Some (Cpus_node (Some example_map_missing)))"
  let ?st1 = "snd (parse_dt_topology ?M (reset_cpu_topology ?M example_topo_state))"
  have p: "parse_dt_topology ?M (reset_cpu_topology ?M example_topo_state)
             = (Some Cpu_not_in_map, ?st1)"
    by (simp add: example_parse_missing)
  have e1: "arch_get_cpu_efficiency ?st1 0 = 2048"
    by (simp add: example_parse_missing arch_get_cpu_efficiency_def)
  have e2: "arch_get_cpu_efficiency (init_cpu_topology ?M example_topo_state) 0 = 2048"
    using reset_keeps_efficiency[of ?M example_topo_state 0 Cpu_not_in_map ?st1] p e1
    by simp
  have t: "cpu_topology (init_cpu_topology ?M example_topo_state) 0 = flat_entry 0"
    by (simp add: init_cpu_topology_def example_parse_missing reset_cpu_topology_entry
        example_possible)
  have f1: "fst (parse_dt_topology ?M (reset_cpu_topology ?M example_topo_state))
              = Some Cpu_not_in_map"
    by (simp add: example_parse_missing)
  have f0: "arch_get_cpu_efficiency example_topo_state 0 = 1024"
    by (simp add: arch_get_cpu_efficiency_def example_topo_state_def)
  show ?thesis
    using f1 f0 e1 e2 t by blast
qed

subsection \<open>Sibling masks after the initialisation\<close>

text \<open>
  Discovery writes ids only, never a sibling mask. So the three properties of the sibling
  masks hold after \<^verbatim>\<open>init_cpu_topology\<close> on either path, with the ids discovery
  assigned.
\<close>

lemma sib_inv_masks_eq:
  "masks st' = masks st \<Longrightarrow> sib_inv P (cpu_topology st) \<Longrightarrow> sib_inv P (cpu_topology st')"
proof -
  assume e: "masks st' = masks st" and i: "sib_inv P (cpu_topology st)"
  have c: "\<And>x. core_sibling (cpu_topology st' x) = core_sibling (cpu_topology st x)"
    and t: "\<And>x. thread_sibling (cpu_topology st' x) = thread_sibling (cpu_topology st x)"
    using e by (simp_all add: masks_def fun_eq_iff)
  show ?thesis using i unfolding sib_inv_def c t .
qed

lemma parse_core_threads_masks:
  "masks (snd (snd (parse_core_threads env core cl co i leaf st))) = masks st"
proof (induction env core cl co i leaf st rule: parse_core_threads.induct)
  case (1 env core cl co i leaf st)
  show ?case
  proof (cases "of_get_child_by_name core (Thread i)")
    case None
    then show ?thesis by simp
  next
    case (Some t)
    show ?thesis
    proof (cases "get_cpu_for_node env t \<ge> 0")
      case True
      have "masks (st\<lparr>cpu_topology := (cpu_topology st)(nat (get_cpu_for_node env t) :=
                    (cpu_topology st (nat (get_cpu_for_node env t)))
                      \<lparr>thread_id := of_nat i, core_id := co, cluster_id := cl\<rparr>)\<rparr>) = masks st"
        by (simp add: masks_def fun_eq_iff)
      then show ?thesis using Some True "1.IH"[OF Some refl True] by (simp add: Let_def)
    next
      case False
      then show ?thesis using Some by (simp add: Let_def)
    qed
  qed
qed

lemma parse_core_masks: "masks (snd (parse_core env core cl co st)) = masks st"
proof -
  obtain r leaf st1 where res: "parse_core_threads env core cl co 0 True st = (r, leaf, st1)"
    by (cases "parse_core_threads env core cl co 0 True st") auto
  have m: "masks st1 = masks st"
    using parse_core_threads_masks[of env core cl co 0 True st] res by simp
  have u: "\<And>c. masks (st1\<lparr>cpu_topology := (cpu_topology st1)(c :=
                      (cpu_topology st1 c)\<lparr>core_id := co, cluster_id := cl\<rparr>)\<rparr>) = masks st1"
    by (simp add: masks_def fun_eq_iff)
  show ?thesis
    using res m u by (auto simp add: parse_core_def Let_def split: option.splits)
qed

lemma parse_cluster_cores_masks:
  "masks (snd (snd (parse_cluster_cores env cluster depth leaf i co has_cores st))) = masks st"
proof (induction env cluster depth leaf i co has_cores st rule: parse_cluster_cores.induct)
  case (1 env cluster depth leaf i co has_cores st)
  show ?case
  proof (cases "of_get_child_by_name cluster (Core i)")
    case None
    then show ?thesis by simp
  next
    case (Some c)
    show ?thesis
    proof (cases "depth \<noteq> 0 \<and> leaf")
      case False
      then show ?thesis using Some by auto
    next
      case True
      obtain r st1 where pc: "parse_core env c (cluster_id_static st) co st = (r, st1)"
        by (cases "parse_core env c (cluster_id_static st) co st") auto
      have m1: "masks st1 = masks st" using parse_core_masks[of env c "cluster_id_static st" co st] pc by simp
      show ?thesis
      proof (cases r)
        case None
        have "masks (snd (snd (parse_cluster_cores env cluster depth leaf (Suc i) (co + 1) True st1))) = masks st1"
          using "1.IH"[OF Some _ _ pc[symmetric] None] True by simp
        then show ?thesis using Some True pc None m1 by simp
      next
        case (Some e)
        then show ?thesis using \<open>of_get_child_by_name cluster (Core i) = Some c\<close> True pc m1 by simp
      qed
    qed
  qed
qed

lemma parse_cluster_masks_both:
  "masks (snd (parse_cluster env cluster depth st)) = masks st"
  "masks (snd (snd (parse_cluster_children env cluster depth i leaf st))) = masks st"
proof (induction env cluster depth st and env cluster depth i leaf st
       rule: parse_cluster_parse_cluster_children.induct)
  case (1 env cluster depth st)
  obtain r leaf st1 where ch: "parse_cluster_children env cluster depth 0 True st = (r, leaf, st1)"
    by (cases "parse_cluster_children env cluster depth 0 True st") auto
  have m1: "masks st1 = masks st" using "1.IH" ch by simp
  obtain r2 hc st2 where co: "parse_cluster_cores env cluster depth leaf 0 0 False st1 = (r2, hc, st2)"
    by (cases "parse_cluster_cores env cluster depth leaf 0 0 False st1") auto
  have m2: "masks st2 = masks st1"
    using parse_cluster_cores_masks[of env cluster depth leaf 0 0 False st1] co by simp
  have m3: "masks (st2\<lparr>cluster_id_static := cluster_id_static st2 + 1\<rparr>) = masks st2"
    by (simp add: masks_def fun_eq_iff)
  show ?case
    using ch co m1 m2 m3
    by (subst parse_cluster.simps) (auto split: option.splits)
next
  case (2 env cluster depth i leaf st)
  show ?case
  proof (cases "of_get_child_by_name cluster (Cluster i)")
    case None
    then show ?thesis by (subst parse_cluster_children.simps) simp
  next
    case (Some c)
    obtain r st1 where pc: "parse_cluster env c (Suc depth) st = (r, st1)"
      by (cases "parse_cluster env c (Suc depth) st") auto
    have m1: "masks st1 = masks st" using "2.IH"(1)[OF Some] pc by simp
    show ?thesis
    proof (cases r)
      case None
      have "masks (snd (snd (parse_cluster_children env cluster depth (Suc i) False st1))) = masks st1"
        using "2.IH"(2)[OF Some pc[symmetric] None] by simp
      then show ?thesis using Some pc None m1
        by (subst parse_cluster_children.simps) simp
    next
      case (Some e)
      then show ?thesis using \<open>of_get_child_by_name cluster (Cluster i) = Some c\<close> pc m1
        by (subst parse_cluster_children.simps) simp
    qed
  qed
qed

lemma fold_check_cpu_masks: "masks (snd (fold (check_cpu env) cs rs)) = masks (snd rs)"
  by (simp add: masks_def fun_eq_iff fold_check_cpu_table)

lemma parse_dt_topology_masks: "masks (snd (parse_dt_topology env st)) = masks st"
proof (cases "of_find_cpus env")
  case None
  then show ?thesis by (simp add: parse_dt_topology_def)
next
  case (Some cn)
  show ?thesis
  proof (cases "cpu_map_node cn")
    case None
    then show ?thesis using Some by (simp add: parse_dt_topology_def)
  next
    case (Some cmap)
    obtain r st1 where pc: "parse_cluster env cmap 0 st = (r, st1)"
      by (cases "parse_cluster env cmap 0 st") auto
    have m1: "masks st1 = masks st" using parse_cluster_masks_both(1)[of env cmap 0 st] pc by simp
    show ?thesis
      using \<open>of_find_cpus env = Some cn\<close> Some pc m1
        fold_check_cpu_masks[of env "for_each_possible_cpu env" "(None, st1)"]
      by (cases r) (simp_all add: parse_dt_topology_def del: parse_cluster.simps)
  qed
qed

lemma init_cpu_topology_siblings:
  "sib_inv (set (for_each_possible_cpu env)) (cpu_topology (init_cpu_topology env st))"
proof -
  let ?P = "set (for_each_possible_cpu env)"
  obtain r st1 where p: "parse_dt_topology env (reset_cpu_topology env st) = (r, st1)"
    by (cases "parse_dt_topology env (reset_cpu_topology env st)") auto
  show ?thesis
  proof (cases r)
    case (Some e)
    then show ?thesis using p by (simp add: init_cpu_topology_def sib_inv_reset)
  next
    case None
    have "masks st1 = masks (reset_cpu_topology env st)"
      using parse_dt_topology_masks[of env "reset_cpu_topology env st"] p by simp
    then have "sib_inv ?P (cpu_topology st1)"
      by (rule sib_inv_masks_eq) (rule sib_inv_reset)
    then have "sib_inv ?P (cpu_topology (fold (update_siblings_masks env) (for_each_possible_cpu env) st1))"
      by (rule sib_inv_fold_masks) simp_all
    then show ?thesis using p None by (simp add: init_cpu_topology_def)
  qed
qed

end
